theory Spec2Isabelle
  imports Complex_Main "HOL-Library.Multiset" "HOL-Library.Product_Lexorder"
begin

section \<open>JavaScript strings\<close>

text \<open>
  Strings are lists of 8-bit characters. The source works on UTF-16 strings; every table of
  the program is ASCII, and for the characters 0x80..0xFF \<open>toLowerCase\<close> stays outside
  \<open>[a-z0-9]\<close>, so lower-casing only the letters A..Z gives the same normalised terms.
\<close>

definition upper_letters :: string where
  "upper_letters = ''ABCDEFGHIJKLMNOPQRSTUVWXYZ''"

definition lower_letters :: string where
  "lower_letters = ''abcdefghijklmnopqrstuvwxyz''"

definition lower_char :: "char \<Rightarrow> char" where
  "lower_char c = (case map_of (zip upper_letters lower_letters) c of Some l \<Rightarrow> l | None \<Rightarrow> c)"

definition toLowerCase :: "string \<Rightarrow> string" where
  "toLowerCase s = map lower_char s"

text \<open>The character class \<open>[a-z0-9]\<close>.\<close>

definition is_term_char :: "char \<Rightarrow> bool" where
  "is_term_char c = (c \<in> set (lower_letters @ ''0123456789''))"

text \<open>The class \<open>\s\<close> (also what \<open>trim\<close> strips): TAB, LF, VT, FF, CR, SPACE, NBSP.\<close>

definition is_space :: "char \<Rightarrow> bool" where
  "is_space c = (c \<in> set [CHR 0x09, CHR 0x0A, CHR 0x0B, CHR 0x0C, CHR 0x0D, CHR 0x20, CHR 0xA0])"

text \<open>\<open>s.replace(/[P]+/g, r)\<close>: every maximal run of characters of the class becomes \<open>r\<close>.\<close>

function replace_runs :: "(char \<Rightarrow> bool) \<Rightarrow> string \<Rightarrow> string \<Rightarrow> string" where
  "replace_runs P r [] = []"
| "replace_runs P r (c # cs) =
     (if P c then r @ replace_runs P r (dropWhile P cs) else c # replace_runs P r cs)"
  by pat_completeness auto
termination
  by (relation "measure (\<lambda>(P, r, s). length s)")
     (auto simp: le_imp_less_Suc length_dropWhile_le)

definition trim :: "string \<Rightarrow> string" where
  "trim s = rev (dropWhile is_space (rev (dropWhile is_space s)))"

text \<open>\<open>s.startsWith(p)\<close>\<close>

definition startsWith :: "string \<Rightarrow> string \<Rightarrow> bool" where
  "startsWith s p = (take (length p) s = p)"

text \<open>\<open>s.includes(p)\<close>\<close>

fun str_includes :: "string \<Rightarrow> string \<Rightarrow> bool" where
  "str_includes [] p = (p = [])"
| "str_includes (c # cs) p = (startsWith (c # cs) p \<or> str_includes cs p)"

text \<open>\<open>[...new Set(xs)]\<close>: the first occurrence of every element, in insertion order.\<close>

fun set_order :: "'a list \<Rightarrow> 'a list \<Rightarrow> 'a list" where
  "set_order seen [] = []"
| "set_order seen (x # xs) =
     (if x \<in> set seen then set_order seen xs else x # set_order (x # seen) xs)"

definition dedupe :: "'a list \<Rightarrow> 'a list" where
  "dedupe xs = set_order [] xs"

text \<open>
  \<open>Array.prototype.sort(cmp)\<close> is stable, and for a consistent comparator its result is
  the one stable sorted permutation; insertion from the right computes it. The comparator
  returns a number whose sign decides; \<open>None\<close> is NaN, which the sort takes as 0.
\<close>

definition compare_value :: "'n option \<Rightarrow> 'n::{zero,linorder}" where
  "compare_value v = (case v of None \<Rightarrow> 0 | Some x \<Rightarrow> x)"

fun insert_sorted :: "('a \<Rightarrow> 'a \<Rightarrow> ('n::{zero,linorder}) option) \<Rightarrow> 'a \<Rightarrow> 'a list \<Rightarrow> 'a list" where
  "insert_sorted cmp x [] = [x]"
| "insert_sorted cmp x (y # ys) =
     (if compare_value (cmp x y) \<le> 0 then x # y # ys else y # insert_sorted cmp x ys)"

definition js_sort :: "('a \<Rightarrow> 'a \<Rightarrow> ('n::{zero,linorder}) option) \<Rightarrow> 'a list \<Rightarrow> 'a list" where
  "js_sort cmp xs = foldr (insert_sorted cmp) xs []"

section \<open>Constants and alias tables\<close>

definition MAX_RESULTS :: int where
  "MAX_RESULTS = 10"

definition MIN_PROVIDER_INPUT_LENGTH :: nat where
  "MIN_PROVIDER_INPUT_LENGTH = 3"

definition MIN_LANGUAGE_PREFIX_LENGTH :: nat where
  "MIN_LANGUAGE_PREFIX_LENGTH = 3"

definition SUPPORTED_LANGUAGES :: "string list" where
  "SUPPORTED_LANGUAGES =
    [''English'', ''Thai'', ''Vietnamese'', ''Indonesian'', ''Filipino'',
     ''Japanese'', ''Korean'', ''Cantonese'', ''Mandarin'', ''Malay'']"

text \<open>Objects used as tables are association lists in key insertion order.\<close>

definition LANGUAGE_ALIASES :: "(string \<times> string list) list" where
  "LANGUAGE_ALIASES =
    [(''english'', [''en'', ''eng'', ''american'', ''us'', ''gb'']),
     (''thai'', [''th'', ''thai'', ''thai language'']),
     (''vietnamese'', [''vi'', ''viet'', ''vietnamese'']),
     (''indonesian'', [''id'', ''ind'']),
     (''filipino'', [''tl'', ''filipino'', ''tagalog'', ''ph'']),
     (''japanese'', [''ja'', ''jp'', ''nihongo'']),
     (''korean'', [''ko'', ''kr'', ''hangul'', ''korean'']),
     (''cantonese'', [''zh-yue'', ''cantonese'', ''kantonees'', ''cn-cant'']),
     (''mandarin'', [''zh'', ''zh-cn'', ''zh-hans'', ''mandarin'']),
     (''malay'', [''ms'', ''ms-my'', ''malay''])]"

definition PROVIDER_ALIASES :: "(string \<times> string list) list" where
  "PROVIDER_ALIASES =
    [(''Deepgram'', [''deepgram'', ''deep gram'']),
     (''AssemblyAI'', [''assemblyai'', ''assembly ai'', ''assembly'']),
     (''OpenAI'', [''openai'', ''open ai'', ''open-ai'', ''gpt'', ''chatgpt'']),
     (''Speechmatics'', [''speechmatics'', ''speech-matics'', ''speech matics'']),
     (''Google'', [''google'', ''gemini'']),
     (''Anthropic'', [''anthropic'', ''claude'', ''claude ai'']),
     (''Groq'', [''groq'', ''llama'', ''llama 4'', ''llama-4'', ''llama4'']),
     (''Cartesia'', [''cartesia'', ''cartes ia'']),
     (''ElevenLabs'', [''elevenlabs'', ''eleven labs'', ''eleven'', ''eleven-labs'']),
     (''PlayHT'', [''playht'', ''play ht'', ''play-ht'']),
     (''Rime'', [''rime'', ''rime ai''])]"

definition ALL_PROVIDERS :: "string list" where
  "ALL_PROVIDERS = map fst PROVIDER_ALIASES"

definition USE_CASE_ALIASES :: "(string \<times> string list) list" where
  "USE_CASE_ALIASES =
    [(''customer-support'', [''customer support'', ''support'', ''cs'', ''customer'']),
     (''sales'', [''sale'', ''sales'', ''revenue'']),
     (''debt-collections'', [''debt collection'', ''collections'', ''collection'', ''collections team'']),
     (''scheduling'', [''schedule'', ''calendar'', ''appointments'', ''booking'']),
     (''healthcare-triage'', [''healthcare'', ''medical'', ''triage'', ''doctor'', ''clinic'']),
     (''insurance-claims'', [''claims'', ''insurance'', ''insurance claim'', ''claims ops'']),
     (''lead-qualification'', [''lead qualify'', ''leads'', ''qualification'', ''lead'']),
     (''appointment-reminders'', [''reminder'', ''appointment'', ''notification'', ''nudge'']),
     (''banking-faq'', [''banking'', ''faq'', ''finance'', ''compliance'']),
     (''recruitment-screening'', [''recruiting'', ''recruitment'', ''screening'', ''hiring'', ''interviews''])]"

section \<open>Text normalisation\<close>

definition normalizeTerm :: "string \<Rightarrow> string" where
  "normalizeTerm v =
     replace_runs is_space '' ''
       (trim (replace_runs (\<lambda>c. \<not> is_term_char c) '' '' (toLowerCase v)))"

definition normalizeUseCase :: "string \<Rightarrow> string" where
  "normalizeUseCase use_case = replace_runs is_space ''-'' (normalizeTerm use_case)"

definition normalizeProviderInput :: "string \<Rightarrow> string" where
  "normalizeProviderInput v = normalizeTerm v"



section \<open>Provider resolution\<close>

text \<open>A catalog entry \<open>{ provider, alias }\<close>; the field \<open>alias\<close> is named \<open>aliasText\<close> here.\<close>

record AliasCandidate =
  provider :: string
  aliasText :: string

definition PROVIDER_ALIAS_CATALOG :: "AliasCandidate list" where
  "PROVIDER_ALIAS_CATALOG =
     js_sort (\<lambda>a b. Some (int (length (aliasText b)) - int (length (aliasText a))))
       (concat (map (\<lambda>(p, aliases).
          map (\<lambda>a. \<lparr>provider = p, aliasText = a\<rparr>)
            (filter (\<lambda>a. a \<noteq> []) (dedupe (map normalizeProviderInput (p # aliases)))))
          PROVIDER_ALIASES))"

text \<open>The test of one candidate inside the loop of \<open>resolveProviderMatch\<close>.\<close>

definition candidate_matches :: "string \<Rightarrow> AliasCandidate \<Rightarrow> bool" where
  "candidate_matches normalized c =
     (aliasText c = normalized \<or> startsWith (aliasText c) normalized
      \<or> startsWith normalized (aliasText c @ '' ''))"

fun scan_catalog :: "string \<Rightarrow> AliasCandidate list \<Rightarrow> AliasCandidate option" where
  "scan_catalog normalized [] = None"
| "scan_catalog normalized (c # cs) =
     (if length (aliasText c) < MIN_PROVIDER_INPUT_LENGTH then scan_catalog normalized cs
      else if candidate_matches normalized c then Some c
      else scan_catalog normalized cs)"

definition resolveProviderMatch :: "string \<Rightarrow> AliasCandidate option" where
  "resolveProviderMatch input =
     (let normalized = normalizeProviderInput input in
      if normalized = [] \<or> length normalized < MIN_PROVIDER_INPUT_LENGTH then None
      else scan_catalog normalized PROVIDER_ALIAS_CATALOG)"

definition resolveProvider :: "string \<Rightarrow> string option" where
  "resolveProvider input = map_option provider (resolveProviderMatch input)"

text \<open>
  The matching rule in the words of the specification, for comparison: the alias equals the
  normalised input, or the alias is a prefix of the normalised input, or the normalised
  input starts with the alias followed by a space.
\<close>

definition spec_candidate_matches :: "string \<Rightarrow> AliasCandidate \<Rightarrow> bool" where
  "spec_candidate_matches normalized c =
     (aliasText c = normalized \<or> startsWith normalized (aliasText c)
      \<or> startsWith normalized (aliasText c @ '' ''))"

definition resolveProviderMatch_spec :: "string \<Rightarrow> AliasCandidate option" where
  "resolveProviderMatch_spec input =
     (let normalized = normalizeProviderInput input in
      if length normalized < 3 then None
      else List.find (spec_candidate_matches normalized) PROVIDER_ALIAS_CATALOG)"

section \<open>Language resolution\<close>

definition resolveLanguage :: "string \<Rightarrow> string option" where
  "resolveLanguage input =
     (let normalized = normalizeTerm input in
      if normalized = [] then None
      else case List.find (\<lambda>lang. normalizeTerm lang = normalized) SUPPORTED_LANGUAGES of
        Some direct \<Rightarrow> Some direct
      | None \<Rightarrow>
         (case List.find (\<lambda>(lang, aliases).
                   list_ex (\<lambda>a. normalized = normalizeTerm a) aliases) LANGUAGE_ALIASES of
            Some (canonical, aliases) \<Rightarrow>
              (case List.find (\<lambda>lang. normalizeTerm lang = canonical) SUPPORTED_LANGUAGES of
                 Some lang \<Rightarrow> Some lang
               | None \<Rightarrow> Some canonical)
          | None \<Rightarrow>
              if MIN_LANGUAGE_PREFIX_LENGTH \<le> length normalized
              then List.find (\<lambda>lang. startsWith (normalizeTerm lang) normalized
                                     \<or> startsWith normalized (normalizeTerm lang))
                     SUPPORTED_LANGUAGES
              else None))"

definition getLanguageSuggestions :: "string \<Rightarrow> string list" where
  "getLanguageSuggestions input =
     (let normalized = normalizeTerm input in
      if normalized = [] then take 5 SUPPORTED_LANGUAGES
      else
        let exact = filter (\<lambda>lang. str_includes (normalizeTerm lang) normalized
                                  \<or> str_includes normalized (normalizeTerm lang))
                      SUPPORTED_LANGUAGES;
            byAlias = filter (\<lambda>lang.
                        list_ex (\<lambda>a. str_includes (normalizeTerm a) normalized)
                          (case map_of LANGUAGE_ALIASES (normalizeTerm lang) of
                             Some aliases \<Rightarrow> aliases | None \<Rightarrow> []))
                        SUPPORTED_LANGUAGES
        in take 5 (dedupe (exact @ byAlias)))"

section \<open>Use cases and weights\<close>

text \<open>
  \<open>ScoreWeights = { latency, quality, cost }\<close>. The fields carry the prefix \<open>w_\<close>,
  since a benchmark row has a field \<open>quality\<close> of its own. Numbers are rationals.
\<close>

record ScoreWeights =
  w_latency :: rat
  w_quality :: rat
  w_cost :: rat

definition DEFAULT_WEIGHTS :: ScoreWeights where
  "DEFAULT_WEIGHTS = \<lparr>w_latency = 70, w_quality = 70, w_cost = 60\<rparr>"

definition USE_CASE_PRIORITIES :: "(string \<times> ScoreWeights) list" where
  "USE_CASE_PRIORITIES =
    [(''debt-collections'', \<lparr>w_latency = 80, w_quality = 60, w_cost = 70\<rparr>),
     (''sales'', \<lparr>w_latency = 70, w_quality = 80, w_cost = 50\<rparr>),
     (''customer-support'', \<lparr>w_latency = 60, w_quality = 90, w_cost = 60\<rparr>),
     (''scheduling'', \<lparr>w_latency = 90, w_quality = 40, w_cost = 80\<rparr>),
     (''insurance-claims'', \<lparr>w_latency = 50, w_quality = 95, w_cost = 40\<rparr>),
     (''lead-qualification'', \<lparr>w_latency = 75, w_quality = 75, w_cost = 55\<rparr>),
     (''appointment-reminders'', \<lparr>w_latency = 85, w_quality = 50, w_cost = 75\<rparr>),
     (''healthcare-triage'', \<lparr>w_latency = 55, w_quality = 95, w_cost = 45\<rparr>),
     (''banking-faq'', \<lparr>w_latency = 60, w_quality = 90, w_cost = 60\<rparr>),
     (''recruitment-screening'', \<lparr>w_latency = 65, w_quality = 85, w_cost = 50\<rparr>)]"

text \<open>
  \<open>USE_CASE_PRIORITIES\<close> is a plain object, so \<open>USE_CASE_PRIORITIES[key]\<close> also finds
  the members inherited from \<open>Object.prototype\<close>; all of them are truthy.
\<close>

definition OBJECT_PROTOTYPE_KEYS :: "string list" where
  "OBJECT_PROTOTYPE_KEYS =
    [''constructor'', ''hasOwnProperty'', ''isPrototypeOf'', ''propertyIsEnumerable'',
     ''toLocaleString'', ''toString'', ''valueOf'', ''__proto__'', ''__defineGetter__'',
     ''__defineSetter__'', ''__lookupGetter__'', ''__lookupSetter__'']"

datatype 'a js_property = Own 'a | Inherited | Undefined

definition js_get :: "(string \<times> 'a) list \<Rightarrow> string \<Rightarrow> 'a js_property" where
  "js_get obj key =
     (case map_of obj key of
        Some v \<Rightarrow> Own v
      | None \<Rightarrow> if key \<in> set OBJECT_PROTOTYPE_KEYS then Inherited else Undefined)"

definition js_truthy :: "'a js_property \<Rightarrow> bool" where
  "js_truthy p = (p \<noteq> Undefined)"

definition resolveUseCase :: "string \<Rightarrow> string" where
  "resolveUseCase input =
     (let normalized = normalizeUseCase input in
      if js_truthy (js_get USE_CASE_PRIORITIES normalized) then normalized
      else case List.find (\<lambda>(useCase, aliases).
                  useCase = normalized \<or>
                  list_ex (\<lambda>a. let normalizedAlias = normalizeUseCase a in
                             normalizedAlias = normalized
                             \<or> startsWith normalizedAlias normalized
                             \<or> startsWith normalized normalizedAlias) aliases)
                USE_CASE_ALIASES of
             Some direct \<Rightarrow> fst direct
           | None \<Rightarrow> normalized)"

text \<open>
  What \<open>getUseCaseWeights\<close> returns: a weight triple, or an inherited member of
  \<open>Object.prototype\<close>, which has none of the three fields.
\<close>

datatype weights_value = Weights ScoreWeights | PrototypeMember

definition getUseCaseWeights :: "string \<Rightarrow> weights_value" where
  "getUseCaseWeights use_case =
     (case js_get USE_CASE_PRIORITIES (resolveUseCase use_case) of
        Own w \<Rightarrow> Weights w
      | Inherited \<Rightarrow> PrototypeMember
      | Undefined \<Rightarrow> Weights DEFAULT_WEIGHTS)"

datatype optimize_for = Balanced | Latency | Quality | Cost

definition getObjectiveWeights :: "optimize_for \<Rightarrow> string \<Rightarrow> weights_value" where
  "getObjectiveWeights opt use_case =
     (case opt of
        Latency \<Rightarrow> Weights \<lparr>w_latency = 100, w_quality = 30, w_cost = 30\<rparr>
      | Quality \<Rightarrow> Weights \<lparr>w_latency = 30, w_quality = 100, w_cost = 30\<rparr>
      | Cost \<Rightarrow> Weights \<lparr>w_latency = 30, w_quality = 30, w_cost = 100\<rparr>
      | Balanced \<Rightarrow> getUseCaseWeights use_case)"

section \<open>Result count\<close>

text \<open>
  \<open>max_results\<close> is validated by \<open>z.number()\<close>, which refuses NaN; a JSON number can
  still overflow to an infinity.
\<close>

datatype js_number = Finite rat | PosInfinity | NegInfinity

definition clampMaxResults :: "js_number \<Rightarrow> int" where
  "clampMaxResults v =
     (case v of
        Finite q \<Rightarrow> max 1 (min \<lfloor>q\<rfloor> MAX_RESULTS)
      | PosInfinity \<Rightarrow> max 1 MAX_RESULTS
      | NegInfinity \<Rightarrow> 1)"

section \<open>Benchmark data\<close>

text \<open>
  A benchmark row. Numbers are exact rationals (every finite double is one). The optional
  field \<open>notes\<close> is named \<open>notesText\<close> here.
\<close>

record BenchmarkEntry =
  stt :: string
  sttModel :: string
  llm :: string
  llmModel :: string
  tts :: string
  ttsModel :: string
  latencyMs :: rat
  quality :: rat
  costPerMin :: rat
  mos :: "rat option"
  languages :: "string list"
  notesText :: "string option"

definition BENCHMARK_DATA :: "BenchmarkEntry list" where
  "BENCHMARK_DATA =
    [\<lparr>stt = ''Deepgram'', sttModel = ''nova-3'', llm = ''OpenAI'', llmModel = ''gpt-4.1-mini'',
      tts = ''Cartesia'', ttsModel = ''sonic-3'',
      latencyMs = 168, quality = 45 / 10, costPerMin = 7 / 1000, mos = Some (43 / 10),
      languages = [''Thai'', ''English'', ''Vietnamese'', ''Indonesian'', ''Japanese'', ''Korean''],
      notesText = Some ''Best overall for APAC multilingual. Production-proven across enterprise deployments.''\<rparr>,
     \<lparr>stt = ''Deepgram'', sttModel = ''nova-3'', llm = ''Groq'', llmModel = ''llama-4-maverick'',
      tts = ''Cartesia'', ttsModel = ''sonic-3'',
      latencyMs = 156, quality = 42 / 10, costPerMin = 5 / 1000, mos = None,
      languages = [''Thai'', ''English''],
      notesText = Some ''Lowest latency option. Groq inference is fast but quality slightly lower.''\<rparr>,
     \<lparr>stt = ''Deepgram'', sttModel = ''nova-3'', llm = ''OpenAI'', llmModel = ''gpt-4.1'',
      tts = ''ElevenLabs'', ttsModel = ''turbo_v2.5'',
      latencyMs = 215, quality = 45 / 10, costPerMin = 14 / 1000, mos = Some (45 / 10),
      languages = [''Thai'', ''English'', ''Japanese''],
      notesText = Some ''Highest naturalness. ElevenLabs excels for emotional/expressive voices.''\<rparr>,
     \<lparr>stt = ''AssemblyAI'', sttModel = ''universal-3-pro'', llm = ''OpenAI'', llmModel = ''gpt-4.1-mini'',
      tts = ''Cartesia'', ttsModel = ''sonic-3'',
      latencyMs = 178, quality = 44 / 10, costPerMin = 8 / 1000, mos = Some (42 / 10),
      languages = [''English'', ''Vietnamese'', ''Filipino'', ''Cantonese''],
      notesText = Some ''Strong for Southeast Asian languages. AssemblyAI universal model handles accents well.''\<rparr>,
     \<lparr>stt = ''OpenAI'', sttModel = ''gpt-4o-transcribe'', llm = ''OpenAI'', llmModel = ''gpt-4.1'',
      tts = ''ElevenLabs'', ttsModel = ''eleven_v3'',
      latencyMs = 287, quality = 48 / 10, costPerMin = 22 / 1000, mos = Some (48 / 10),
      languages = [''English'', ''Japanese'', ''Korean''],
      notesText = Some ''Premium quality, highest cost. Best for high-stakes conversations (insurance, healthcare).''\<rparr>,
     \<lparr>stt = ''Speechmatics'', sttModel = ''enhanced'', llm = ''OpenAI'', llmModel = ''gpt-4.1-mini'',
      tts = ''Rime'', ttsModel = ''arcana-v3'',
      latencyMs = 205, quality = 42 / 10, costPerMin = 8 / 1000, mos = None,
      languages = [''Thai'', ''English'', ''Cantonese''],
      notesText = Some ''Speechmatics leads for Thai code-switching (94% vs Deepgram 71%).''\<rparr>,
     \<lparr>stt = ''Deepgram'', sttModel = ''nova-3'', llm = ''Google'', llmModel = ''gemini-2.5-pro'',
      tts = ''PlayHT'', ttsModel = ''play-3.0-mini'',
      latencyMs = 268, quality = 41 / 10, costPerMin = 8 / 1000, mos = Some (41 / 10),
      languages = [''English'', ''Indonesian'', ''Filipino''],
      notesText = Some ''Good balance for Indonesian/Filipino markets.''\<rparr>,
     \<lparr>stt = ''Google'', sttModel = ''chirp-3'', llm = ''Groq'', llmModel = ''llama-4-maverick'',
      tts = ''Cartesia'', ttsModel = ''sonic-3'',
      latencyMs = 195, quality = 40 / 10, costPerMin = 6 / 1000, mos = None,
      languages = [''English'', ''Vietnamese'', ''Japanese'', ''Korean''],
      notesText = Some ''Budget option with decent quality. Good for high-volume, cost-sensitive deployments.''\<rparr>,
     \<lparr>stt = ''Deepgram'', sttModel = ''nova-3'', llm = ''ElevenLabs'', llmModel = ''eleven-turbo'',
      tts = ''ElevenLabs'', ttsModel = ''eleven_v3'',
      latencyMs = 142, quality = 41 / 10, costPerMin = 4 / 1000, mos = None,
      languages = [''Thai'', ''English'', ''Vietnamese'', ''Indonesian''],
      notesText = Some ''ElevenLabs end-to-end. Lowest latency when using their full stack.''\<rparr>,
     \<lparr>stt = ''Deepgram'', sttModel = ''nova-3'', llm = ''Google'', llmModel = ''gemini-2.5-flash'',
      tts = ''Cartesia'', ttsModel = ''sonic-3'',
      latencyMs = 148, quality = 42 / 10, costPerMin = 4 / 1000, mos = None,
      languages = [''English'', ''Thai'', ''Vietnamese'', ''Filipino'', ''Indonesian''],
      notesText = Some ''Best cost-to-performance ratio. Gemini Flash is surprisingly good for voice agents.''\<rparr>,
     \<lparr>stt = ''Deepgram'', sttModel = ''nova-3'', llm = ''Anthropic'', llmModel = ''claude-sonnet-4-5'',
      tts = ''Cartesia'', ttsModel = ''sonic-3'',
      latencyMs = 198, quality = 46 / 10, costPerMin = 9 / 1000, mos = None,
      languages = [''English'', ''Japanese'', ''Korean'', ''Thai''],
      notesText = Some ''Claude excels at nuanced conversations. Best for complex reasoning in voice agents.''\<rparr>,
     \<lparr>stt = ''AssemblyAI'', sttModel = ''universal-3-pro'', llm = ''ElevenLabs'', llmModel = ''eleven-turbo'',
      tts = ''ElevenLabs'', ttsModel = ''turbo_v2.5'',
      latencyMs = 210, quality = 40 / 10, costPerMin = 6 / 1000, mos = None,
      languages = [''English'', ''Cantonese'', ''Japanese''],
      notesText = Some ''Solid mid-range option for East Asian languages.''\<rparr>]"

datatype ProviderCategory = STT | LLM | TTS

text \<open>\<open>PROVIDER_INFO\<close>: per category, the providers and their known models.\<close>

definition PROVIDER_INFO :: "ProviderCategory \<Rightarrow> (string \<times> string list) list" where
  "PROVIDER_INFO category =
     (case category of
        STT \<Rightarrow>
          [(''Deepgram'', [''nova-3'', ''nova-2'']),
           (''AssemblyAI'', [''universal-3-pro'']),
           (''OpenAI'', [''gpt-4o-transcribe'', ''whisper-large-v3'']),
           (''Speechmatics'', [''enhanced'']),
           (''Google'', [''chirp-3''])]
      | LLM \<Rightarrow>
          [(''OpenAI'', [''gpt-4.1-mini'', ''gpt-4.1'']),
           (''Anthropic'', [''claude-sonnet-4-5'']),
           (''Google'', [''gemini-2.5-flash'', ''gemini-2.5-pro'']),
           (''Groq'', [''llama-4-maverick'']),
           (''ElevenLabs'', [''eleven-turbo''])]
      | TTS \<Rightarrow>
          [(''Cartesia'', [''sonic-3'']),
           (''ElevenLabs'', [''eleven_v3'', ''turbo_v2.5'']),
           (''PlayHT'', [''play-3.0-mini'']),
           (''Rime'', [''arcana-v3''])])"

section \<open>Scoring and ranking\<close>

text \<open>
  The score in exact arithmetic; the rounding of doubles is not modelled. \<open>None\<close> is a
  result that is not a finite number: NaN when the weights are an inherited member, whose
  three fields are undefined, and NaN or an infinity when the weights add up to 0. The
  weight triples the program builds are all positive. \<open>Math.round\<close> rounds a half up.
\<close>

definition math_round :: "rat \<Rightarrow> rat" where
  "math_round x = of_int \<lfloor>x + 1 / 2\<rfloor>"

definition scoreBenchmark :: "'a BenchmarkEntry_scheme \<Rightarrow> weights_value \<Rightarrow> rat option" where
  "scoreBenchmark entry weights =
     (case weights of
        PrototypeMember \<Rightarrow> None
      | Weights w \<Rightarrow>
          if w_latency w + w_quality w + w_cost w = 0 then None
          else
            let latencyScore = max 0 (100 - (latencyMs entry - 100) * (1 / 2));
                qualityScore = (quality entry / 5) * 100;
                costScore = max 0 (100 - costPerMin entry * 5000)
            in Some (math_round
                 (((latencyScore * w_latency w + qualityScore * w_quality w + costScore * w_cost w)
                    / (w_latency w + w_quality w + w_cost w)) * 10) / 10))"

text \<open>A ranked row \<open>{ ...entry, score }\<close>.\<close>

record ScoredEntry = BenchmarkEntry +
  score :: "rat option"

definition with_score :: "BenchmarkEntry \<Rightarrow> rat option \<Rightarrow> ScoredEntry" where
  "with_score entry s = BenchmarkEntry.extend entry (ScoredEntry.fields s)"

text \<open>\<open>x - y\<close> and \<open>x !== y\<close> on numbers that may be NaN.\<close>

definition js_minus :: "rat option \<Rightarrow> rat option \<Rightarrow> rat option" where
  "js_minus x y = (case (x, y) of (Some a, Some b) \<Rightarrow> Some (a - b) | _ \<Rightarrow> None)"

definition js_differ :: "rat option \<Rightarrow> rat option \<Rightarrow> bool" where
  "js_differ x y = (x = None \<or> y = None \<or> x \<noteq> y)"

text \<open>The comparator of \<open>rankBenchmarks\<close>.\<close>

definition rank_compare :: "ScoredEntry \<Rightarrow> ScoredEntry \<Rightarrow> rat option" where
  "rank_compare a b =
     (if js_differ (score b) (score a) then js_minus (score b) (score a)
      else if latencyMs a \<noteq> latencyMs b then Some (latencyMs a - latencyMs b)
      else if quality b \<noteq> quality a then Some (quality b - quality a)
      else Some (costPerMin a - costPerMin b))"

definition rankBenchmarks :: "BenchmarkEntry list \<Rightarrow> weights_value \<Rightarrow> ScoredEntry list" where
  "rankBenchmarks entries weights =
     js_sort rank_compare (map (\<lambda>entry. with_score entry (scoreBenchmark entry weights)) entries)"



section \<open>Scaffold compatibility\<close>

datatype ScaffoldFramework = Livekit | Nextjs

text \<open>\<open>FRAMEWORK_COMPATIBILITY\<close>: the three allow-sets of a framework.\<close>

definition policy_stt :: "ScaffoldFramework \<Rightarrow> string list" where
  "policy_stt framework = (case framework of
     Livekit \<Rightarrow> [''Deepgram'', ''OpenAI'', ''Google''] | Nextjs \<Rightarrow> [])"

definition policy_llm :: "ScaffoldFramework \<Rightarrow> string list" where
  "policy_llm framework = (case framework of
     Livekit \<Rightarrow> [''OpenAI'', ''Anthropic'', ''Google''] | Nextjs \<Rightarrow> [])"

definition policy_tts :: "ScaffoldFramework \<Rightarrow> string list" where
  "policy_tts framework = (case framework of
     Livekit \<Rightarrow> [''Cartesia'', ''ElevenLabs''] | Nextjs \<Rightarrow> [''ElevenLabs''])"

definition isScaffoldCompatible :: "'a BenchmarkEntry_scheme \<Rightarrow> ScaffoldFramework \<Rightarrow> bool" where
  "isScaffoldCompatible entry framework =
     (let sttOk = (length (policy_stt framework) = 0 \<or> stt entry \<in> set (policy_stt framework));
          llmOk = (length (policy_llm framework) = 0 \<or> llm entry \<in> set (policy_llm framework));
          ttsOk = (tts entry \<in> set (policy_tts framework))
      in sttOk \<and> llmOk \<and> ttsOk)"

section \<open>Terms used in the statements about ranking\<close>

text \<open>The row that \<open>rankBenchmarks\<close> builds from an entry before it sorts.\<close>

definition scored :: "weights_value \<Rightarrow> BenchmarkEntry \<Rightarrow> ScoredEntry" where
  "scored weights entry = with_score entry (scoreBenchmark entry weights)"




section \<open>Parsing a provider with its model\<close>

text \<open>
  \<open>s.split(/\s+/)\<close>: the pieces between the runs of white space. The first argument is
  the piece being read, reversed.
\<close>

function split_whitespace :: "string \<Rightarrow> string \<Rightarrow> string list" where
  "split_whitespace acc [] = [rev acc]"
| "split_whitespace acc (c # cs) =
     (if is_space c then rev acc # split_whitespace [] (dropWhile is_space cs)
      else split_whitespace (c # acc) cs)"
  by pat_completeness auto
termination
  by (relation "measure (\<lambda>(acc, s). length s)")
     (auto simp: le_imp_less_Suc length_dropWhile_le)

text \<open>\<open>words.join(sep)\<close>\<close>

fun join :: "string \<Rightarrow> string list \<Rightarrow> string" where
  "join sep [] = []"
| "join sep [w] = w"
| "join sep (w # ws) = w @ sep @ join sep ws"

text \<open>
  \<open>ParsedProviderModel = { provider, model? }\<close>; the field \<open>provider\<close> is named
  \<open>parsedProvider\<close> here.
\<close>

record ParsedProviderModel =
  parsedProvider :: string
  model :: "string option"

definition parseProviderWithModel :: "string \<Rightarrow> ParsedProviderModel option" where
  "parseProviderWithModel input =
     (let normalized = normalizeProviderInput input in
      if normalized = [] then None
      else case resolveProviderMatch input of
        None \<Rightarrow> None
      | Some resolved \<Rightarrow>
          let normalizedRemainder = trim (drop (length (aliasText resolved)) normalized) in
          if normalizedRemainder = [] then Some \<lparr>parsedProvider = provider resolved, model = None\<rparr>
          else
            let originalTrimmed = trim input;
                aliasWords = length (split_whitespace [] (aliasText resolved));
                inputWords = split_whitespace [] originalTrimmed;
                originalModel = trim (join '' '' (drop aliasWords inputWords))
            in Some \<lparr>parsedProvider = provider resolved,
                     model = Some (if originalModel \<noteq> [] then originalModel
                                   else normalizedRemainder)\<rparr>)"

section \<open>Parsing a combo\<close>

text \<open>
  One match of \<open>/\s*(?:\+|,|->)\s*/\<close> at the start of a string: what is left after it.
  The leading \<open>\s*\<close> has to take the whole run of white space, since no separator starts
  with a white space character.
\<close>

definition match_separator :: "string \<Rightarrow> string option" where
  "match_separator s =
     (case dropWhile is_space s of
        [] \<Rightarrow> None
      | c # rest \<Rightarrow>
          if c = CHR ''+'' \<or> c = CHR '','' then Some (dropWhile is_space rest)
          else if c = CHR ''-'' then
            (case rest of
               [] \<Rightarrow> None
             | d # rest' \<Rightarrow> if d = CHR ''>'' then Some (dropWhile is_space rest') else None)
          else None)"

text \<open>
  \<open>desc.split(/\s*(?:\+|,|->)\s*/)\<close>: at every position the pattern is tried; where it
  matches, the piece read so far ends and reading goes on after the match.
\<close>

function split_separators :: "string \<Rightarrow> string \<Rightarrow> string list" where
  "split_separators acc [] = [rev acc]"
| "split_separators acc (c # cs) =
     (case match_separator (c # cs) of
        Some rest \<Rightarrow> rev acc # split_separators [] rest
      | None \<Rightarrow> split_separators (c # acc) cs)"
  by pat_completeness auto
termination
proof (relation "measure (\<lambda>(acc, s). length s)")
  show "wf (measure (\<lambda>(acc, s). length s))"
    by simp
next
  fix acc :: string and c cs rest
  assume m: "match_separator (c # cs) = Some rest"
  have d: "length (dropWhile is_space (c # cs)) \<le> length (c # cs)"
    by (rule length_dropWhile_le)
  have "length rest < length (dropWhile is_space (c # cs))"
  proof (cases "dropWhile is_space (c # cs)")
    case Nil
    with m show ?thesis
      by (simp add: match_separator_def)
  next
    case (Cons x xs)
    have "length (dropWhile is_space xs) \<le> length xs"
      by (rule length_dropWhile_le)
    moreover have "\<And>ys. length (dropWhile is_space ys) \<le> length ys"
      by (rule length_dropWhile_le)
    ultimately show ?thesis
      using m Cons
      by (auto simp: match_separator_def le_imp_less_Suc less_Suc_eq_le
          split: if_splits list.splits intro: le_SucI)
  qed
  with d show "(([], rest), (acc, c # cs)) \<in> measure (\<lambda>(acc, s). length s)"
    by simp
next
  fix acc :: string and c cs
  show "((c # acc, cs), (acc, c # cs)) \<in> measure (\<lambda>(acc, s). length s)"
    by simp
qed

text \<open>The \<open>parts\<close> of \<open>parseComboInput\<close>: split, trimmed, the empty ones dropped.\<close>

definition combo_parts :: "string \<Rightarrow> string list" where
  "combo_parts desc = filter (\<lambda>part. part \<noteq> []) (map trim (split_separators [] desc))"

text \<open>\<open>ParsedCombo = { stt, llm, tts }\<close>, the fields with the prefix \<open>combo_\<close>.\<close>

record ParsedCombo =
  combo_stt :: ParsedProviderModel
  combo_llm :: ParsedProviderModel
  combo_tts :: ParsedProviderModel

definition parseComboInput :: "string \<Rightarrow> ParsedCombo option" where
  "parseComboInput desc =
     (case combo_parts desc of
        [sttInput, llmInput, ttsInput] \<Rightarrow>
          (case (parseProviderWithModel sttInput, parseProviderWithModel llmInput,
                 parseProviderWithModel ttsInput) of
             (Some s, Some l, Some t) \<Rightarrow> Some \<lparr>combo_stt = s, combo_llm = l, combo_tts = t\<rparr>
           | _ \<Rightarrow> None)
      | _ \<Rightarrow> None)"


section \<open>Tool handlers\<close>

text \<open>
  A handler ends in \<open>formatToolResponse(output_format, markdown, payload)\<close>, which prints
  the payload as JSON or returns the markdown text built from the same values. The model
  of a handler is the payload it hands over at the \<open>return\<close> it reaches; the texts are
  not modelled. A handler takes \<open>output_format\<close> as the source does. Reading a field of
  \<open>undefined\<close> is the error \<open>TypeError\<close>.
\<close>

datatype ToolOutputFormat = Markdown | Json

datatype ('m, 'p) tool_text = MarkdownText 'm | JsonText 'p

definition formatToolResponse :: "ToolOutputFormat \<Rightarrow> 'm \<Rightarrow> 'p \<Rightarrow> ('m, 'p) tool_text" where
  "formatToolResponse format markdown jsonPayload =
     (if format = Json then JsonText jsonPayload else MarkdownText markdown)"

datatype js_error = TypeError

text \<open>An optional string argument used as a condition: absent and empty are both falsy.\<close>

definition given :: "string option \<Rightarrow> string option" where
  "given arg = (case arg of None \<Rightarrow> None | Some s \<Rightarrow> if s = [] then None else Some s)"

text \<open>
  \<open>a.localeCompare(b)\<close>, for the provider names, which are ASCII letters and differ
  beyond their case: the order of the lower-cased names.
\<close>

definition localeCompare :: "string \<Rightarrow> string \<Rightarrow> int option" where
  "localeCompare a b =
     (let x = map (of_char :: char \<Rightarrow> nat) (toLowerCase a);
          y = map (of_char :: char \<Rightarrow> nat) (toLowerCase b)
      in Some (if x = y then 0 else if (x, y) \<in> lexord {(m, n). m < n} then - 1 else 1))"

definition listKnownProviders :: "ProviderCategory option \<Rightarrow> string list" where
  "listKnownProviders category =
     js_sort localeCompare
       (case category of Some c \<Rightarrow> map fst (PROVIDER_INFO c) | None \<Rightarrow> ALL_PROVIDERS)"

definition makeProviderMatch :: "string \<Rightarrow> string \<Rightarrow> bool" where
  "makeProviderMatch input p =
     (case resolveProvider input of
        None \<Rightarrow> False
      | Some normalizedInput \<Rightarrow> normalizeTerm normalizedInput = normalizeTerm p)"

text \<open>\<open>b.languages.some((l) => l.toLowerCase() === resolvedLanguage.toLowerCase())\<close>\<close>

definition supports_language :: "'a BenchmarkEntry_scheme \<Rightarrow> string \<Rightarrow> bool" where
  "supports_language b resolvedLanguage =
     list_ex (\<lambda>l. toLowerCase l = toLowerCase resolvedLanguage) (languages b)"

subsection \<open>Benchmark\<close>

datatype sort_by = ByLatency | ByQuality | ByCost

record BenchmarkSummary =
  fastest :: BenchmarkEntry
  best_quality :: BenchmarkEntry
  cheapest :: BenchmarkEntry

datatype benchmark_payload =
    BenchmarkUnsupportedLanguage (requested_language: string) (suggestions: "string list")
  | BenchmarkUnsupportedProvider (requested_provider: string) (supported_providers: "string list")
  | BenchmarkRows "string option" "string option" sort_by "BenchmarkEntry list"
      "BenchmarkSummary option"

fun benchmark_status :: "benchmark_payload \<Rightarrow> string" where
  "benchmark_status (BenchmarkUnsupportedLanguage l s) = ''error''"
| "benchmark_status (BenchmarkUnsupportedProvider p s) = ''error''"
| "benchmark_status (BenchmarkRows l p s rows summary) = ''ok''"

fun benchmark_reason :: "benchmark_payload \<Rightarrow> string option" where
  "benchmark_reason (BenchmarkUnsupportedLanguage l s) = Some ''unsupported-language''"
| "benchmark_reason (BenchmarkUnsupportedProvider p s) = Some ''unsupported-provider''"
| "benchmark_reason (BenchmarkRows l p s rows summary) = None"

definition by_latency :: "'a BenchmarkEntry_scheme \<Rightarrow> 'a BenchmarkEntry_scheme \<Rightarrow> rat option" where
  "by_latency a b = Some (latencyMs a - latencyMs b)"

definition by_cost :: "'a BenchmarkEntry_scheme \<Rightarrow> 'a BenchmarkEntry_scheme \<Rightarrow> rat option" where
  "by_cost a b = Some (costPerMin a - costPerMin b)"

definition by_quality :: "'a BenchmarkEntry_scheme \<Rightarrow> 'a BenchmarkEntry_scheme \<Rightarrow> rat option" where
  "by_quality a b = Some (quality b - quality a)"

definition voiceforge_benchmark ::
  "string option \<Rightarrow> string option \<Rightarrow> sort_by \<Rightarrow> ToolOutputFormat \<Rightarrow> js_error + benchmark_payload" where
  "voiceforge_benchmark language p sortBy output_format =
     (let resolvedLanguage = (case given language of Some l \<Rightarrow> resolveLanguage l | None \<Rightarrow> None);
          resolvedProvider = (case given p of Some q \<Rightarrow> resolveProvider q | None \<Rightarrow> None)
      in case (given language, resolvedLanguage) of
           (Some l, None) \<Rightarrow>
             Inr (BenchmarkUnsupportedLanguage l (getLanguageSuggestions l))
         | _ \<Rightarrow>
          (case (given p, resolvedProvider) of
             (Some q, None) \<Rightarrow>
               Inr (BenchmarkUnsupportedProvider q (listKnownProviders None))
           | _ \<Rightarrow>
             let results = BENCHMARK_DATA;
                 results = (case (given language, resolvedLanguage) of
                              (Some l, Some rl) \<Rightarrow> filter (\<lambda>b. supports_language b rl) results
                            | _ \<Rightarrow> results);
                 results = (case (given p, resolvedProvider) of
                              (Some q, Some rp) \<Rightarrow>
                                filter (\<lambda>b. makeProviderMatch rp (stt b)
                                             \<or> makeProviderMatch rp (llm b)
                                             \<or> makeProviderMatch rp (tts b)) results
                            | _ \<Rightarrow> results)
             in if length results = 0
                then Inr (BenchmarkRows resolvedLanguage resolvedProvider sortBy [] None)
                else
                  let results = (case sortBy of
                                   ByLatency \<Rightarrow> js_sort by_latency results
                                 | ByCost \<Rightarrow> js_sort by_cost results
                                 | ByQuality \<Rightarrow> js_sort by_quality results)
                  in case (js_sort by_latency results, js_sort by_quality results,
                           js_sort by_cost results) of
                       (f # fs, q # qs, c # cs) \<Rightarrow>
                         Inr (BenchmarkRows resolvedLanguage resolvedProvider sortBy results
                                (Some \<lparr>fastest = f, best_quality = q, cheapest = c\<rparr>))
                     | _ \<Rightarrow> Inl TypeError))"

subsection \<open>Recommend\<close>

text \<open>
  The handler of \<open>voiceforge_recommend\<close> returns its texts directly. Its result here is
  what the text is built from; \<open>topRows\<close> is the source's \<open>top\<close>. The markdown text
  reads the fields of \<open>top[0]\<close>.
\<close>

datatype recommend_result =
    RecommendUnknownLanguage string "string list"
  | RecommendNoBenchmarks string
  | RecommendRanked string string optimize_for "ScoredEntry list"

definition voiceforge_recommend ::
  "string \<Rightarrow> string \<Rightarrow> optimize_for \<Rightarrow> js_number \<Rightarrow> ToolOutputFormat
   \<Rightarrow> js_error + recommend_result" where
  "voiceforge_recommend language use_case opt max_results output_format =
     (let resolvedLanguage = resolveLanguage language;
          resolvedUseCase = resolveUseCase use_case
      in case resolvedLanguage of
           None \<Rightarrow> Inr (RecommendUnknownLanguage language (getLanguageSuggestions language))
         | Some rl \<Rightarrow>
             let matching = filter (\<lambda>b. supports_language b rl) BENCHMARK_DATA in
             if length matching = 0 then Inr (RecommendNoBenchmarks language)
             else
               let resultLimit = clampMaxResults max_results;
                   weights = getObjectiveWeights opt resolvedUseCase;
                   topRows = take (nat resultLimit) (rankBenchmarks matching weights)
               in if output_format = Json
                  then Inr (RecommendRanked rl resolvedUseCase opt topRows)
                  else (case topRows of
                          [] \<Rightarrow> Inl TypeError
                        | best # rest \<Rightarrow> Inr (RecommendRanked rl resolvedUseCase opt topRows)))"

subsection \<open>Scaffold\<close>

definition strip_edge_hyphens :: "string \<Rightarrow> string" where
  "strip_edge_hyphens s =
     (let s1 = (case s of [] \<Rightarrow> [] | c # cs \<Rightarrow> if c = CHR ''-'' then cs else c # cs)
      in if s1 \<noteq> [] \<and> last s1 = CHR ''-'' then butlast s1 else s1)"

definition toSafeSlug :: "string \<Rightarrow> string" where
  "toSafeSlug v =
     take 80 (strip_edge_hyphens
       (replace_runs (\<lambda>c. c = CHR ''-'') ''-''
         (replace_runs (\<lambda>c. \<not> is_term_char c) ''-'' (normalizeTerm v))))"

text \<open>
  The template functions \<open>getLiveKitAgentTemplate\<close> and \<open>getNextJSTemplate\<close> are not
  among the sources; the handler takes them as the parameter \<open>templates\<close>. A template
  returns files (path and content) or throws. The clock \<open>Date.now()\<close>, as printed, is the
  parameter \<open>now\<close>.
\<close>

record TemplateConfig =
  cfg_language :: string
  cfg_useCase :: string
  cfg_stt :: string
  cfg_sttModel :: string
  cfg_llm :: string
  cfg_llmModel :: string
  cfg_tts :: string
  cfg_ttsModel :: string
  cfg_agentName :: string

datatype template_outcome = Files "(string \<times> string) list" | ThrowsError string | ThrowsOther

text \<open>The fallback notice names the top stack, the framework and the score difference.\<close>

record FallbackNotice =
  notice_top :: ScoredEntry
  notice_framework :: ScaffoldFramework
  notice_delta :: rat

record ScaffoldResult =
  sc_agent_name :: string
  sc_framework :: ScaffoldFramework
  sc_language :: string
  sc_use_case :: string
  sc_stack :: ScoredEntry
  sc_files :: "(string \<times> string) list"
  sc_output_dir :: string
  sc_fallback_notice :: "FallbackNotice option"

datatype scaffold_payload =
    ScaffoldUnsupportedLanguage string "string list"
  | ScaffoldNoLanguageBenchmarks string
  | ScaffoldNoCompatibleStack ScaffoldFramework string
  | ScaffoldTemplateFailed string
  | ScaffoldOk ScaffoldResult

fun scaffold_status :: "scaffold_payload \<Rightarrow> string" where
  "scaffold_status (ScaffoldUnsupportedLanguage l s) = ''error''"
| "scaffold_status (ScaffoldNoLanguageBenchmarks l) = ''fallback''"
| "scaffold_status (ScaffoldNoCompatibleStack f l) = ''error''"
| "scaffold_status (ScaffoldTemplateFailed m) = ''error''"
| "scaffold_status (ScaffoldOk r) = ''ok''"

text \<open>The text that \<open>isSameStack\<close> compares: the six names of a row, spaces between.\<close>

definition stack_label :: "'a BenchmarkEntry_scheme \<Rightarrow> string" where
  "stack_label e =
     stt e @ '' '' @ sttModel e @ '' '' @ llm e @ '' '' @ llmModel e @ '' '' @ tts e
       @ '' '' @ ttsModel e"

text \<open>\<open>Math.abs(x - y) > 2\<close>; a NaN is not greater than 2.\<close>

definition scoreDelta :: "ScoredEntry \<Rightarrow> ScoredEntry \<Rightarrow> rat option" where
  "scoreDelta topPick best = map_option abs (js_minus (score topPick) (score best))"

definition exceeds :: "rat option \<Rightarrow> rat \<Rightarrow> bool" where
  "exceeds v bound = (case v of None \<Rightarrow> False | Some d \<Rightarrow> bound < d)"

definition voiceforge_scaffold ::
  "(ScaffoldFramework \<Rightarrow> TemplateConfig \<Rightarrow> template_outcome) \<Rightarrow> string \<Rightarrow>
   string \<Rightarrow> string \<Rightarrow> ScaffoldFramework \<Rightarrow> string option \<Rightarrow> string option \<Rightarrow>
   ToolOutputFormat \<Rightarrow> js_error + scaffold_payload" where
  "voiceforge_scaffold templates now language use_case framework agent_name output_dir output_format =
     (let resolvedLanguage = resolveLanguage language;
          resolvedUseCase = resolveUseCase use_case
      in case resolvedLanguage of
           None \<Rightarrow> Inr (ScaffoldUnsupportedLanguage language (getLanguageSuggestions language))
         | Some rl \<Rightarrow>
             let matching = filter (\<lambda>b. supports_language b rl) BENCHMARK_DATA in
             if length matching = 0 then Inr (ScaffoldNoLanguageBenchmarks language)
             else
               let ranked = rankBenchmarks matching (getUseCaseWeights resolvedUseCase);
                   scaffoldable = filter (\<lambda>entry. isScaffoldCompatible entry framework) ranked
               in case ranked of
                    [] \<Rightarrow> if length scaffoldable = 0
                           then Inr (ScaffoldNoCompatibleStack framework rl) else Inl TypeError
                  | topPick # lower \<Rightarrow>
                     (case scaffoldable of
                        [] \<Rightarrow> Inr (ScaffoldNoCompatibleStack framework rl)
                      | best # others \<Rightarrow>
                          let isSameStack = (stack_label topPick = stack_label best);
                              delta = scoreDelta topPick best;
                              fallbackNotice =
                                (if \<not> isSameStack \<and> exceeds delta 2
                                 then Some \<lparr>notice_top = topPick, notice_framework = framework,
                                            notice_delta = the delta\<rparr>
                                 else None);
                              safeAgentName = toSafeSlug
                                (case given agent_name of
                                   Some n \<Rightarrow> n
                                 | None \<Rightarrow> toLowerCase rl @ ''-'' @ resolvedUseCase @ ''-agent'');
                              name = (if safeAgentName \<noteq> [] then safeAgentName
                                      else now @ ''-voiceforge-agent'');
                              dir = (case given output_dir of
                                       Some d \<Rightarrow> d | None \<Rightarrow> ''./'' @ name);
                              config = \<lparr>cfg_language = rl, cfg_useCase = use_case,
                                        cfg_stt = stt best, cfg_sttModel = sttModel best,
                                        cfg_llm = llm best, cfg_llmModel = llmModel best,
                                        cfg_tts = tts best, cfg_ttsModel = ttsModel best,
                                        cfg_agentName = name\<rparr>
                          in case templates framework config of
                               ThrowsError message \<Rightarrow> Inr (ScaffoldTemplateFailed message)
                             | ThrowsOther \<Rightarrow> Inr (ScaffoldTemplateFailed ''unknown error'')
                             | Files files \<Rightarrow>
                                 Inr (ScaffoldOk
                                   \<lparr>sc_agent_name = name, sc_framework = framework,
                                    sc_language = rl, sc_use_case = resolvedUseCase,
                                    sc_stack = best, sc_files = files, sc_output_dir = dir,
                                    sc_fallback_notice = fallbackNotice\<rparr>)))"

subsection \<open>Validate\<close>



definition resolveProviderCategory :: "string \<Rightarrow> ProviderCategory \<Rightarrow> string option" where
  "resolveProviderCategory p category =
     (case resolveProvider p of
        None \<Rightarrow> None
      | Some resolved \<Rightarrow>
          if map_of (PROVIDER_INFO category) resolved \<noteq> None then Some resolved else None)"

record NormalizedCombo =
  stt_provider :: string
  stt_model :: string
  llm_provider :: string
  llm_model :: string
  tts_provider :: string
  tts_model :: string

datatype validate_framework = AllFrameworks | Only ScaffoldFramework

datatype validate_payload =
    ValidateUnresolvedProvider "string list" "string list" "string list"
  | ValidateUnsupportedModel "ProviderCategory list" NormalizedCombo
      "string list" "string list" "string list"
  | ValidateNoExactMatch NormalizedCombo "string list" "string list" "string list"
      "ProviderCategory list"
  | ValidateOk ScoredEntry nat bool bool NormalizedCombo "ProviderCategory list"

fun validate_status :: "validate_payload \<Rightarrow> string" where
  "validate_status (ValidateUnresolvedProvider s l t) = ''error''"
| "validate_status (ValidateUnsupportedModel u c s l t) = ''warning''"
| "validate_status (ValidateNoExactMatch c s l t u) = ''error''"
| "validate_status (ValidateOk e n lk nx c u) = ''ok''"

fun validate_reason :: "validate_payload \<Rightarrow> string option" where
  "validate_reason (ValidateUnresolvedProvider s l t) = Some ''unresolved-provider''"
| "validate_reason (ValidateUnsupportedModel u c s l t) = Some ''unsupported-model''"
| "validate_reason (ValidateNoExactMatch c s l t u) = Some ''no-exact-match''"
| "validate_reason (ValidateOk e n lk nx c u) = None"


text \<open>
  The handler after its model check, from \<open>const matches = ...\<close> on: the best-effort
  match of the requested stack against the catalog.
\<close>

definition validate_matches :: "NormalizedCombo \<Rightarrow> BenchmarkEntry list" where
  "validate_matches normalizedCombo =
     filter (\<lambda>entry.
         makeProviderMatch (stt_provider normalizedCombo) (stt entry)
         \<and> toLowerCase (sttModel entry) = stt_model normalizedCombo
         \<and> makeProviderMatch (llm_provider normalizedCombo) (llm entry)
         \<and> toLowerCase (llmModel entry) = llm_model normalizedCombo
         \<and> makeProviderMatch (tts_provider normalizedCombo) (tts entry)
         \<and> toLowerCase (ttsModel entry) = tts_model normalizedCombo)
       BENCHMARK_DATA"

definition validate_best_effort ::
  "NormalizedCombo \<Rightarrow> ProviderCategory list \<Rightarrow> js_error + validate_payload" where
  "validate_best_effort normalizedCombo unknownModels =
     (let matches = validate_matches normalizedCombo
      in if length matches = 0
         then
           let hint = (\<lambda>names category resolved.
                 filter (\<lambda>entryProvider.
                     resolveProviderCategory entryProvider category = Some resolved)
                   (dedupe names))
           in Inr (ValidateNoExactMatch normalizedCombo
                     (hint (map stt BENCHMARK_DATA) STT (stt_provider normalizedCombo))
                     (hint (map llm BENCHMARK_DATA) LLM (llm_provider normalizedCombo))
                     (hint (map tts BENCHMARK_DATA) TTS (tts_provider normalizedCombo))
                     unknownModels)
         else
           (case rankBenchmarks matches (getUseCaseWeights ''customer-support'') of
              [] \<Rightarrow> Inl TypeError
            | topRow # lower \<Rightarrow>
                Inr (ValidateOk topRow (length matches)
                       (isScaffoldCompatible topRow Livekit)
                       (isScaffoldCompatible topRow Nextjs)
                       normalizedCombo unknownModels)))"


subsection \<open>Compare\<close>



datatype side = A | B

record CompareResult =
  cmp_a :: ScoredEntry
  cmp_b :: ScoredEntry
  winner_latency :: side
  winner_quality :: side
  winner_cost :: side
  delta_latencyMs :: rat
  delta_quality :: rat
  delta_costPerMin :: rat
  languages_both :: "string list"
  languages_only_a :: "string list"
  languages_only_b :: "string list"
  requested_a :: string
  requested_b :: string
  candidates_a :: nat
  candidates_b :: nat
  ambiguity_a :: bool
  ambiguity_b :: bool

datatype compare_payload =
    CompareUnparseable "side list" string string "string list"
  | CompareNoMatchingCombo string string nat nat
  | CompareUnresolvedCombo string string nat nat
  | CompareOk CompareResult

fun compare_status :: "compare_payload \<Rightarrow> string" where
  "compare_status (CompareUnparseable m a b ps) = ''error''"
| "compare_status (CompareNoMatchingCombo a b na nb) = ''error''"
| "compare_status (CompareUnresolvedCombo a b na nb) = ''error''"
| "compare_status (CompareOk r) = ''ok''"



section \<open>Terms used in the statements about the handlers\<close>


text \<open>A template that returns no files and never throws.\<close>

definition no_files :: "ScaffoldFramework \<Rightarrow> TemplateConfig \<Rightarrow> template_outcome" where
  "no_files framework config = Files []"

text \<open>The ranking that the scaffold handler computes for a resolved language.\<close>

definition scaffold_ranking :: "string \<Rightarrow> string \<Rightarrow> ScoredEntry list" where
  "scaffold_ranking rl use_case =
     rankBenchmarks (filter (\<lambda>b. supports_language b rl) BENCHMARK_DATA)
       (getUseCaseWeights (resolveUseCase use_case))"

section \<open>Terms used in the statements about normalisation\<close>

text \<open>
  A string of ASCII letters and digits with single spaces between them; with the flag set, it
  does not start with a space.
\<close>

fun single_spaced :: "bool \<Rightarrow> string \<Rightarrow> bool" where
  "single_spaced b [] = True"
| "single_spaced b (c # cs) =
     (if c = CHR '' '' then \<not> b \<and> single_spaced True cs
      else is_term_char c \<and> single_spaced False cs)"

text \<open>What \<open>replace(/\\s+/g, "-")\<close> does to a single space.\<close>

definition hyphen_for_space :: "char \<Rightarrow> char" where
  "hyphen_for_space c = (if c = CHR '' '' then CHR ''-'' else c)"

section \<open>Facts about sorting\<close>

lemma insert_sorted_insort_key:
  assumes "\<And>y. y \<in> set xs \<Longrightarrow> (compare_value (cmp x y) \<le> 0) = (f x \<le> f y)"
  shows "insert_sorted cmp x xs = insort_key f x xs"
  using assms by (induction xs) simp_all

lemma js_sort_sort_key:
  assumes "\<And>x y. x \<in> set xs \<Longrightarrow> y \<in> set xs \<Longrightarrow>
             (compare_value (cmp x y) \<le> 0) = (f x \<le> f y)"
  shows "js_sort cmp xs = sort_key f xs"
  using assms
proof (induction xs)
  case Nil
  then show ?case
    by (simp add: js_sort_def)
next
  case (Cons x xs)
  then have tail: "js_sort cmp xs = sort_key f xs"
    by simp
  have "insert_sorted cmp x (sort_key f xs) = insort_key f x (sort_key f xs)"
    by (rule insert_sorted_insort_key) (simp add: Cons.prems)
  with tail show ?case
    by (simp add: js_sort_def sort_key_def)
qed

section \<open>Character classes, bit by bit\<close>

text \<open>The three character tests as code equations on the bits of a character.\<close>

lemma is_term_char_bits [code]:
  "is_term_char (Char b0 b1 b2 b3 b4 b5 b6 b7) =
     (\<not> b7 \<and> b5 \<and>
      (if b6 then (b0 \<or> b1 \<or> b2 \<or> b3 \<or> b4) \<and> \<not> (b4 \<and> b3 \<and> (b2 \<or> (b1 \<and> b0)))
       else b4 \<and> \<not> (b3 \<and> (b2 \<or> b1))))"
  unfolding is_term_char_def lower_letters_def
  by (cases b0; cases b1; cases b2; cases b3; cases b4; cases b5; cases b6; cases b7; simp)

lemma is_space_bits [code]:
  "is_space (Char b0 b1 b2 b3 b4 b5 b6 b7) =
     (if b5 then \<not> b0 \<and> \<not> b1 \<and> \<not> b2 \<and> \<not> b3 \<and> \<not> b4 \<and> \<not> b6
      else \<not> b4 \<and> \<not> b6 \<and> \<not> b7 \<and> b3 \<and> (if b2 then \<not> b1 else b0 \<or> b1))"
  unfolding is_space_def
  by (cases b0; cases b1; cases b2; cases b3; cases b4; cases b5; cases b6; cases b7; simp)

lemma lower_char_bits [code]:
  "lower_char (Char b0 b1 b2 b3 b4 b5 b6 b7) =
     (if \<not> b7 \<and> b6 \<and> \<not> b5 \<and> (b0 \<or> b1 \<or> b2 \<or> b3 \<or> b4) \<and> \<not> (b4 \<and> b3 \<and> (b2 \<or> (b1 \<and> b0)))
      then Char b0 b1 b2 b3 b4 True b6 b7 else Char b0 b1 b2 b3 b4 b5 b6 b7)"
  unfolding lower_char_def upper_letters_def lower_letters_def
  by (cases b0; cases b1; cases b2; cases b3; cases b4; cases b5; cases b6; cases b7; simp)

section \<open>Provider resolution: the catalog and the scan\<close>

lemma catalog_sort_key:
  "js_sort (\<lambda>a b. Some (int (length (aliasText b)) - int (length (aliasText a)))) xs =
   sort_key (\<lambda>c. - int (length (aliasText c))) xs"
  by (rule js_sort_sort_key) (auto simp: compare_value_def)

lemma catalog_sorted:
  "sorted_wrt (\<lambda>a b. length (aliasText b) \<le> length (aliasText a)) PROVIDER_ALIAS_CATALOG"
proof -
  let ?f = "\<lambda>c::AliasCandidate. - int (length (aliasText c))"
  have "sorted (map ?f PROVIDER_ALIAS_CATALOG)"
    unfolding PROVIDER_ALIAS_CATALOG_def catalog_sort_key by (rule sorted_sort_key)
  then show ?thesis
    by (simp add: sorted_map)
qed

lemma catalog_values [code]:
  "PROVIDER_ALIAS_CATALOG =
    [\<lparr>provider = ''Speechmatics'', aliasText = ''speech matics''\<rparr>,
     \<lparr>provider = ''Speechmatics'', aliasText = ''speechmatics''\<rparr>,
     \<lparr>provider = ''AssemblyAI'', aliasText = ''assembly ai''\<rparr>,
     \<lparr>provider = ''ElevenLabs'', aliasText = ''eleven labs''\<rparr>,
     \<lparr>provider = ''AssemblyAI'', aliasText = ''assemblyai''\<rparr>,
     \<lparr>provider = ''ElevenLabs'', aliasText = ''elevenlabs''\<rparr>,
     \<lparr>provider = ''Deepgram'', aliasText = ''deep gram''\<rparr>,
     \<lparr>provider = ''Anthropic'', aliasText = ''anthropic''\<rparr>,
     \<lparr>provider = ''Anthropic'', aliasText = ''claude ai''\<rparr>,
     \<lparr>provider = ''Cartesia'', aliasText = ''cartes ia''\<rparr>,
     \<lparr>provider = ''Deepgram'', aliasText = ''deepgram''\<rparr>,
     \<lparr>provider = ''AssemblyAI'', aliasText = ''assembly''\<rparr>,
     \<lparr>provider = ''Cartesia'', aliasText = ''cartesia''\<rparr>,
     \<lparr>provider = ''OpenAI'', aliasText = ''open ai''\<rparr>,
     \<lparr>provider = ''OpenAI'', aliasText = ''chatgpt''\<rparr>,
     \<lparr>provider = ''Groq'', aliasText = ''llama 4''\<rparr>,
     \<lparr>provider = ''PlayHT'', aliasText = ''play ht''\<rparr>,
     \<lparr>provider = ''Rime'', aliasText = ''rime ai''\<rparr>,
     \<lparr>provider = ''OpenAI'', aliasText = ''openai''\<rparr>,
     \<lparr>provider = ''Google'', aliasText = ''google''\<rparr>,
     \<lparr>provider = ''Google'', aliasText = ''gemini''\<rparr>,
     \<lparr>provider = ''Anthropic'', aliasText = ''claude''\<rparr>,
     \<lparr>provider = ''Groq'', aliasText = ''llama4''\<rparr>,
     \<lparr>provider = ''ElevenLabs'', aliasText = ''eleven''\<rparr>,
     \<lparr>provider = ''PlayHT'', aliasText = ''playht''\<rparr>,
     \<lparr>provider = ''Groq'', aliasText = ''llama''\<rparr>,
     \<lparr>provider = ''Groq'', aliasText = ''groq''\<rparr>,
     \<lparr>provider = ''Rime'', aliasText = ''rime''\<rparr>,
     \<lparr>provider = ''OpenAI'', aliasText = ''gpt''\<rparr>]"
  by code_simp

lemma catalog_alias_length:
  "c \<in> set PROVIDER_ALIAS_CATALOG \<Longrightarrow> MIN_PROVIDER_INPUT_LENGTH \<le> length (aliasText c)"
  unfolding catalog_values MIN_PROVIDER_INPUT_LENGTH_def by auto

lemma scan_catalog_find:
  "(\<And>c. c \<in> set cs \<Longrightarrow> MIN_PROVIDER_INPUT_LENGTH \<le> length (aliasText c)) \<Longrightarrow>
   scan_catalog n cs = List.find (candidate_matches n) cs"
  by (induction cs) (auto simp: not_less [symmetric])

text \<open>
  C1 (as the code has it). An input whose normalised form has fewer than 3 characters
  resolves to no provider. Every other input resolves to the first entry of the alias
  catalog, which is sorted by alias length descending, whose alias equals the normalised
  input, or starts with the normalised input (the input is a prefix of the alias), or is
  followed by a space at the start of the normalised input; the result is that entry, its
  provider and its alias. With no such entry there is no provider.
\<close>

theorem resolveProviderMatch_first_match:
  "(length (normalizeProviderInput input) < 3 \<longrightarrow> resolveProviderMatch input = None) \<and>
   (3 \<le> length (normalizeProviderInput input) \<longrightarrow>
      resolveProviderMatch input =
        List.find (candidate_matches (normalizeProviderInput input)) PROVIDER_ALIAS_CATALOG) \<and>
   sorted_wrt (\<lambda>a b. length (aliasText b) \<le> length (aliasText a)) PROVIDER_ALIAS_CATALOG"
proof (intro conjI impI)
  assume "length (normalizeProviderInput input) < 3"
  then show "resolveProviderMatch input = None"
    by (simp add: resolveProviderMatch_def MIN_PROVIDER_INPUT_LENGTH_def Let_def)
next
  assume long: "3 \<le> length (normalizeProviderInput input)"
  then have "normalizeProviderInput input \<noteq> []"
    by auto
  with long show "resolveProviderMatch input =
      List.find (candidate_matches (normalizeProviderInput input)) PROVIDER_ALIAS_CATALOG"
    by (simp add: resolveProviderMatch_def MIN_PROVIDER_INPUT_LENGTH_def Let_def
        scan_catalog_find [OF catalog_alias_length])
next
  show "sorted_wrt (\<lambda>a b. length (aliasText b) \<le> length (aliasText a)) PROVIDER_ALIAS_CATALOG"
    by (rule catalog_sorted)
qed

theorem resolveProviderMatch_first_match_witness:
  "length (normalizeProviderInput ''AI'') < 3 \<and> resolveProviderMatch ''AI'' = None \<and>
   3 \<le> length (normalizeProviderInput ''Open-AI gpt-4.1-mini'') \<and>
   resolveProviderMatch ''Open-AI gpt-4.1-mini'' =
     Some \<lparr>provider = ''OpenAI'', aliasText = ''open ai''\<rparr>"
proof -
  have short: "length (normalizeProviderInput ''AI'') < 3"
    by code_simp
  have long: "3 \<le> length (normalizeProviderInput ''Open-AI gpt-4.1-mini'')"
    by code_simp
  have found: "List.find (candidate_matches (normalizeProviderInput ''Open-AI gpt-4.1-mini''))
      PROVIDER_ALIAS_CATALOG = Some \<lparr>provider = ''OpenAI'', aliasText = ''open ai''\<rparr>"
    by code_simp
  from resolveProviderMatch_first_match [of "''AI''"]
    resolveProviderMatch_first_match [of "''Open-AI gpt-4.1-mini''"] short long found
  show ?thesis
    by simp
qed

text \<open>
  C1 as stated fails on the second alternative. The alias \<open>deepgram\<close> is a prefix
  of the input \<open>deepgramx\<close>, yet the code resolves nothing; and no alias is a prefix of
  \<open>dee\<close>, yet the code resolves Deepgram, because \<open>dee\<close> is a prefix of an alias.
\<close>

theorem resolveProviderMatch_prefix_counterexample:
  "resolveProviderMatch ''deepgramx'' = None \<and>
   resolveProviderMatch_spec ''deepgramx'' = Some \<lparr>provider = ''Deepgram'', aliasText = ''deepgram''\<rparr> \<and>
   resolveProviderMatch ''dee'' = Some \<lparr>provider = ''Deepgram'', aliasText = ''deep gram''\<rparr> \<and>
   resolveProviderMatch_spec ''dee'' = None"
  by code_simp

section \<open>Language resolution: codomain\<close>

lemma supported_normalized:
  "map normalizeTerm SUPPORTED_LANGUAGES =
    [''english'', ''thai'', ''vietnamese'', ''indonesian'', ''filipino'',
     ''japanese'', ''korean'', ''cantonese'', ''mandarin'', ''malay'']"
  by code_simp

lemma alias_keys_supported:
  "list_all (\<lambda>(k, aliases).
      case List.find (\<lambda>lang. normalizeTerm lang = k) SUPPORTED_LANGUAGES of
        None \<Rightarrow> False | Some l \<Rightarrow> normalizeTerm l = k) LANGUAGE_ALIASES"
  by code_simp

lemma find_in_set: "List.find P xs = Some x \<Longrightarrow> x \<in> set xs \<and> P x"
  by (induction xs) (auto split: if_splits)

lemma supported_long: "l \<in> set SUPPORTED_LANGUAGES \<Longrightarrow> 3 \<le> length (normalizeTerm l)"
proof -
  assume "l \<in> set SUPPORTED_LANGUAGES"
  then have "normalizeTerm l \<in> set (map normalizeTerm SUPPORTED_LANGUAGES)" by simp
  then show ?thesis unfolding supported_normalized by auto
qed

lemma resolveLanguage_supported:
  "resolveLanguage input = None \<or>
   (\<exists>l \<in> set SUPPORTED_LANGUAGES. resolveLanguage input = Some l)"
proof (cases "resolveLanguage input")
  case None
  then show ?thesis by simp
next
  case (Some l)
  have keys: "\<And>k as. (k, as) \<in> set LANGUAGE_ALIASES \<Longrightarrow>
     \<exists>l. List.find (\<lambda>lang. normalizeTerm lang = k) SUPPORTED_LANGUAGES = Some l"
    using alias_keys_supported by (auto simp: list_all_iff split: option.splits)
  from Some have "l \<in> set SUPPORTED_LANGUAGES"
    unfolding resolveLanguage_def Let_def
    by (auto split: option.splits prod.splits if_splits dest!: find_in_set)
       (use keys in fastforce)
  with Some show ?thesis by simp
qed

lemma resolveLanguage_short_alias:
  assumes "length (normalizeTerm input) < 3" "resolveLanguage input = Some l"
  shows "\<exists>(k, aliases) \<in> set LANGUAGE_ALIASES. normalizeTerm l = k \<and>
           (\<exists>a \<in> set aliases. normalizeTerm a = normalizeTerm input)"
proof -
  have nodirect: "List.find (\<lambda>lang. normalizeTerm lang = normalizeTerm input) SUPPORTED_LANGUAGES = None"
    using assms(1) supported_long by (fastforce simp: find_None_iff)
  from assms obtain k as where f: "List.find (\<lambda>(lang, aliases).
        list_ex (\<lambda>a. normalizeTerm input = normalizeTerm a) aliases) LANGUAGE_ALIASES = Some (k, as)"
    and r: "(case List.find (\<lambda>lang. normalizeTerm lang = k) SUPPORTED_LANGUAGES of
                 Some lang \<Rightarrow> Some lang | None \<Rightarrow> Some k) = Some l"
    unfolding resolveLanguage_def Let_def nodirect MIN_LANGUAGE_PREFIX_LENGTH_def
    by (auto split: option.splits if_splits)
  from f have mem: "(k, as) \<in> set LANGUAGE_ALIASES" and ex: "list_ex (\<lambda>a. normalizeTerm input = normalizeTerm a) as"
    by (auto dest!: find_in_set)
  from mem alias_keys_supported obtain l' where
    l': "List.find (\<lambda>lang. normalizeTerm lang = k) SUPPORTED_LANGUAGES = Some l'" "normalizeTerm l' = k"
    by (auto simp: list_all_iff split: option.splits)
  with r have "l = l'" by simp
  with l' mem ex show ?thesis
    by (auto simp: list_ex_iff intro!: bexI [of _ "(k, as)"])
qed

text \<open>
  C10. \<open>resolveLanguage\<close> returns nothing or an element of \<open>SUPPORTED_LANGUAGES\<close> in
  its canonical spelling. The two-character codes \<open>en\<close>, \<open>th\<close> and \<open>ja\<close> resolve to
  English, Thai and Japanese. When the normalised input has fewer than 3 characters, a
  language is returned only for an exact alias of it: the prefix path needs length 3.
\<close>

theorem resolveLanguage_codomain:
  "(resolveLanguage input = None \<or>
      (\<exists>l. l \<in> set SUPPORTED_LANGUAGES \<and> resolveLanguage input = Some l)) \<and>
   resolveLanguage ''en'' = Some ''English'' \<and>
   resolveLanguage ''th'' = Some ''Thai'' \<and>
   resolveLanguage ''ja'' = Some ''Japanese'' \<and>
   (length (normalizeTerm input) < 3 \<longrightarrow> resolveLanguage input = Some lang \<longrightarrow>
      (\<exists>k aliases a. (k, aliases) \<in> set LANGUAGE_ALIASES \<and> normalizeTerm lang = k \<and>
         a \<in> set aliases \<and> normalizeTerm a = normalizeTerm input))"
proof (intro conjI impI)
  show "resolveLanguage input = None \<or>
      (\<exists>l. l \<in> set SUPPORTED_LANGUAGES \<and> resolveLanguage input = Some l)"
    using resolveLanguage_supported [of input] by blast
  show "resolveLanguage ''en'' = Some ''English''"
    by code_simp
  show "resolveLanguage ''th'' = Some ''Thai''"
    by code_simp
  show "resolveLanguage ''ja'' = Some ''Japanese''"
    by code_simp
next
  assume "length (normalizeTerm input) < 3" "resolveLanguage input = Some lang"
  from resolveLanguage_short_alias [OF this]
  show "\<exists>k aliases a. (k, aliases) \<in> set LANGUAGE_ALIASES \<and> normalizeTerm lang = k \<and>
         a \<in> set aliases \<and> normalizeTerm a = normalizeTerm input"
    by blast
qed

theorem resolveLanguage_codomain_witness:
  "length (normalizeTerm ''KO'') < 3 \<and> resolveLanguage ''KO'' = Some ''Korean'' \<and>
   (\<exists>k aliases a. (k, aliases) \<in> set LANGUAGE_ALIASES \<and> normalizeTerm ''Korean'' = k \<and>
      a \<in> set aliases \<and> normalizeTerm a = normalizeTerm ''KO'')"
proof -
  have short: "length (normalizeTerm ''KO'') < 3"
    by code_simp
  have res: "resolveLanguage ''KO'' = Some ''Korean''"
    by code_simp
  from resolveLanguage_codomain [of "''KO''" "''Korean''"] short res
  show ?thesis
    by blast
qed

section \<open>Use cases: resolution and weights\<close>

lemma set_replace_runs:
  "set (replace_runs P r s) \<subseteq> set r \<union> {c \<in> set s. \<not> P c}"
proof (induction P r s rule: replace_runs.induct)
  case (1 P r)
  then show ?case by simp
next
  case (2 P r c cs)
  show ?case
  proof (cases "P c")
    case True
    with 2 have "set (replace_runs P r (dropWhile P cs)) \<subseteq> set r \<union> {c \<in> set (dropWhile P cs). \<not> P c}"
      by simp
    moreover have "set (dropWhile P cs) \<subseteq> set cs"
      by (auto dest: set_dropWhileD)
    ultimately show ?thesis using True by auto
  next
    case False
    with 2 show ?thesis by auto
  qed
qed

lemma set_trim: "set (trim s) \<subseteq> set s"
  unfolding trim_def by (auto dest!: set_dropWhileD)

lemma space_is_space: "is_space CHR '' ''"
  by (simp add: is_space_def)

lemma normalizeTerm_chars: "c \<in> set (normalizeTerm v) \<Longrightarrow> is_term_char c \<or> c = CHR '' ''"
proof -
  assume "c \<in> set (normalizeTerm v)"
  then have "c = CHR '' '' \<or> c \<in> set (trim (replace_runs (\<lambda>c. \<not> is_term_char c) '' '' (toLowerCase v)))"
    unfolding normalizeTerm_def using set_replace_runs [of is_space "'' ''"] by auto
  then have "c = CHR '' '' \<or> c \<in> set (replace_runs (\<lambda>c. \<not> is_term_char c) '' '' (toLowerCase v))"
    using set_trim by auto
  then show ?thesis
    using set_replace_runs [of "\<lambda>c. \<not> is_term_char c" "'' ''" "toLowerCase v"] by auto
qed

lemma normalizeUseCase_chars: "c \<in> set (normalizeUseCase v) \<Longrightarrow> is_term_char c \<or> c = CHR ''-''"
proof -
  assume "c \<in> set (normalizeUseCase v)"
  then have "c = CHR ''-'' \<or> (c \<in> set (normalizeTerm v) \<and> \<not> is_space c)"
    unfolding normalizeUseCase_def using set_replace_runs [of is_space "''-''" "normalizeTerm v"] by auto
  then show ?thesis
    using normalizeTerm_chars [of c v] space_is_space by auto
qed

lemma prototype_key_chars_all:
  "list_all (\<lambda>k. k = ''constructor'' \<or> list_ex (\<lambda>c. \<not> (is_term_char c \<or> c = CHR ''-'')) k)
     OBJECT_PROTOTYPE_KEYS"
  by code_simp

lemma prototype_key_chars:
  "k \<in> set OBJECT_PROTOTYPE_KEYS \<Longrightarrow> k \<noteq> ''constructor'' \<Longrightarrow>
   \<exists>c \<in> set k. \<not> (is_term_char c \<or> c = CHR ''-'')"
  using prototype_key_chars_all by (auto simp: list_all_iff list_ex_iff)

lemma normalizeUseCase_prototype:
  "normalizeUseCase u \<in> set OBJECT_PROTOTYPE_KEYS \<Longrightarrow> normalizeUseCase u = ''constructor''"
  using prototype_key_chars normalizeUseCase_chars by blast

lemma use_case_alias_keys:
  "fst ` set USE_CASE_ALIASES = fst ` set USE_CASE_PRIORITIES"
  unfolding USE_CASE_ALIASES_def USE_CASE_PRIORITIES_def by auto

lemma js_get_own: "k \<in> fst ` set obj \<Longrightarrow> \<exists>w. js_get obj k = Own w \<and> (k, w) \<in> set obj"
  unfolding js_get_def
  by (cases "map_of obj k") (auto simp: map_of_eq_None_iff dest: map_of_SomeD)

lemma js_get_undefined:
  "k \<notin> fst ` set obj \<Longrightarrow> k \<notin> set OBJECT_PROTOTYPE_KEYS \<Longrightarrow> js_get obj k = Undefined"
  by (simp add: js_get_def map_of_eq_None_iff [THEN iffD2])

lemma resolveUseCase_cases:
  "resolveUseCase u \<in> fst ` set USE_CASE_PRIORITIES \<or> resolveUseCase u = normalizeUseCase u"
proof (cases "js_truthy (js_get USE_CASE_PRIORITIES (normalizeUseCase u))")
  case True
  then show ?thesis by (simp add: resolveUseCase_def)
next
  case False
  let ?P = "\<lambda>(useCase, aliases).
                  useCase = normalizeUseCase u \<or>
                  list_ex (\<lambda>a. let normalizedAlias = normalizeUseCase a in
                             normalizedAlias = normalizeUseCase u
                             \<or> startsWith normalizedAlias (normalizeUseCase u)
                             \<or> startsWith (normalizeUseCase u) normalizedAlias) aliases"
  show ?thesis
  proof (cases "List.find ?P USE_CASE_ALIASES")
    case None
    with False show ?thesis by (simp add: resolveUseCase_def)
  next
    case (Some d)
    then have "d \<in> set USE_CASE_ALIASES" by (auto dest: find_in_set)
    then have "fst d \<in> fst ` set USE_CASE_PRIORITIES"
      using use_case_alias_keys by (metis imageI)
    with False Some show ?thesis by (simp add: resolveUseCase_def)
  qed
qed

lemma term_char_not_space: "is_term_char c \<Longrightarrow> \<not> is_space c"
  by (cases c) (auto simp: is_term_char_bits is_space_bits split: if_splits)

lemma term_char_lower: "is_term_char c \<Longrightarrow> lower_char c = c"
  by (cases c) (auto simp: is_term_char_bits lower_char_bits split: if_splits)

lemma space_facts:
  "is_space CHR '' ''" "\<not> is_term_char CHR '' ''" "\<not> is_term_char CHR ''-''"
  "\<not> is_space CHR ''-''" "lower_char CHR ''-'' = CHR ''-''"
  by (simp_all add: is_space_def is_term_char_def lower_letters_def lower_char_def upper_letters_def)

lemma single_spaced_weaken: "single_spaced b s \<Longrightarrow> single_spaced False s"
  by (cases s) (auto split: if_splits)

lemma single_spaced_start:
  "single_spaced True s \<Longrightarrow> s = [] \<or> is_term_char (hd s)"
  by (cases s) (auto split: if_splits)

lemma replace_nonterm_spaced:
  "single_spaced False (replace_runs (\<lambda>c. \<not> is_term_char c) '' '' x) \<and>
   ((x = [] \<or> is_term_char (hd x)) \<longrightarrow>
      single_spaced True (replace_runs (\<lambda>c. \<not> is_term_char c) '' '' x))"
proof (induction "\<lambda>c. \<not> is_term_char c" "'' ''" x rule: replace_runs.induct)
  case 1
  then show ?case by simp
next
  case (2 c cs)
  show ?case
  proof (cases "is_term_char c")
    case True
    with 2 show ?thesis
      by (auto simp: space_facts)
  next
    case False
    define rest where "rest = dropWhile (\<lambda>c. \<not> is_term_char c) cs"
    have "rest = [] \<or> is_term_char (hd rest)"
      unfolding rest_def using hd_dropWhile [of "\<lambda>c. \<not> is_term_char c" cs] by blast
    moreover have "(rest = [] \<or> is_term_char (hd rest)) \<longrightarrow>
        single_spaced True (replace_runs (\<lambda>c. \<not> is_term_char c) '' '' rest)"
      using 2 False unfolding rest_def by blast
    ultimately have "single_spaced True (replace_runs (\<lambda>c. \<not> is_term_char c) '' '' rest)"
      by blast
    with False show ?thesis
      by (simp add: rest_def)
  qed
qed

lemma single_spaced_take: "single_spaced b s \<Longrightarrow> single_spaced b (take n s)"
  by (induction b s arbitrary: n rule: single_spaced.induct) (auto simp: take_Cons split: nat.splits)

lemma single_spaced_drop: "single_spaced b s \<Longrightarrow> single_spaced False (drop n s)"
proof (induction b s arbitrary: n rule: single_spaced.induct)
  case (1 b)
  then show ?case by simp
next
  case (2 b c cs)
  show ?case
  proof (cases n)
    case 0
    with 2 show ?thesis
      using single_spaced_weaken [of b "c # cs"] by simp
  next
    case (Suc m)
    with 2 show ?thesis
      by (auto split: if_splits)
  qed
qed

lemma strip_right_ends:
  assumes "dropWhile P (rev t) \<noteq> []"
  shows "hd (rev (dropWhile P (rev t))) = hd t \<and> \<not> P (last (rev (dropWhile P (rev t))))"
proof -
  let ?u = "dropWhile P (rev t)"
  have "\<not> P (hd ?u)"
    using assms by (rule hd_dropWhile)
  then have l: "\<not> P (last (rev ?u))"
    using assms by (simp add: last_rev)
  have "rev t = takeWhile P (rev t) @ ?u"
    by simp
  then have "last (rev t) = last ?u"
    using assms by (metis last_appendR)
  moreover have "t \<noteq> []"
    using assms by auto
  ultimately have "hd (rev ?u) = hd t"
    using assms by (simp add: hd_rev last_rev)
  with l show ?thesis
    by simp
qed

lemma trim_ends:
  assumes "trim s \<noteq> []"
  shows "\<not> is_space (hd (trim s)) \<and> \<not> is_space (last (trim s))"
proof -
  define t where "t = dropWhile is_space s"
  have tr: "trim s = rev (dropWhile is_space (rev t))"
    by (simp add: trim_def t_def)
  with assms have u: "dropWhile is_space (rev t) \<noteq> []"
    by simp
  then have "t \<noteq> []"
    by auto
  then have "\<not> is_space (hd t)"
    unfolding t_def by (rule hd_dropWhile)
  with strip_right_ends [OF u] tr show ?thesis
    by simp
qed

lemma strip_right_take:
  "rev (dropWhile P (rev t)) = take (length t - length (takeWhile P (rev t))) t"
  by (simp add: dropWhile_eq_drop rev_drop)

lemma trim_take_drop: "\<exists>m n. trim s = take n (drop m s)"
  unfolding trim_def using strip_right_take [of is_space "dropWhile is_space s"]
    dropWhile_eq_drop [of is_space s] by metis

lemma trim_spaced:
  assumes "single_spaced b r"
  shows "single_spaced True (trim r) \<and> (trim r = [] \<or> \<not> is_space (last (trim r)))"
proof -
  obtain m n where t: "trim r = take n (drop m r)"
    using trim_take_drop by blast
  have ss: "single_spaced False (trim r)"
    unfolding t using assms single_spaced_drop single_spaced_take by blast
  show ?thesis
  proof (cases "trim r")
    case Nil
    then show ?thesis by simp
  next
    case (Cons c cs)
    then have "\<not> is_space (hd (trim r)) \<and> \<not> is_space (last (trim r))"
      using trim_ends [of r] by simp
    with Cons ss show ?thesis
      by (auto simp: space_facts split: if_splits)
  qed
qed

lemma spaces_single_spaced:
  "single_spaced b y \<Longrightarrow> replace_runs is_space '' '' y = y"
proof (induction b y rule: single_spaced.induct)
  case (1 b)
  then show ?case by simp
next
  case (2 b c cs)
  show ?case
  proof (cases "c = CHR '' ''")
    case True
    with 2 have ss: "single_spaced True cs" and ih: "replace_runs is_space '' '' cs = cs"
      by auto
    from single_spaced_start [OF ss] have "dropWhile is_space cs = cs"
      by (cases cs) (auto simp: term_char_not_space)
    with True ih show ?thesis
      by (simp add: space_facts)
  next
    case False
    with 2 have "is_term_char c" and "replace_runs is_space '' '' cs = cs"
      by auto
    then show ?thesis
      by (simp add: term_char_not_space)
  qed
qed

lemma hyphens_single_spaced:
  "single_spaced b y \<Longrightarrow> replace_runs is_space ''-'' y = map hyphen_for_space y"
proof (induction b y rule: single_spaced.induct)
  case (1 b)
  then show ?case by simp
next
  case (2 b c cs)
  show ?case
  proof (cases "c = CHR '' ''")
    case True
    with 2 have ss: "single_spaced True cs"
      and ih: "replace_runs is_space ''-'' cs = map hyphen_for_space cs"
      by auto
    from single_spaced_start [OF ss] have "dropWhile is_space cs = cs"
      by (cases cs) (auto simp: term_char_not_space)
    with True ih show ?thesis
      by (simp add: space_facts hyphen_for_space_def)
  next
    case False
    with 2 have "is_term_char c"
      and "replace_runs is_space ''-'' cs = map hyphen_for_space cs"
      by auto
    with False show ?thesis
      by (simp add: term_char_not_space hyphen_for_space_def)
  qed
qed

lemma lower_hyphenated:
  "single_spaced b y \<Longrightarrow> toLowerCase (map hyphen_for_space y) = map hyphen_for_space y"
  by (induction b y rule: single_spaced.induct)
    (auto simp: toLowerCase_def hyphen_for_space_def space_facts term_char_lower split: if_splits)

lemma nonterm_hyphenated:
  "single_spaced b y \<Longrightarrow>
     replace_runs (\<lambda>c. \<not> is_term_char c) '' '' (map hyphen_for_space y) = y"
proof (induction b y rule: single_spaced.induct)
  case (1 b)
  then show ?case by simp
next
  case (2 b c cs)
  show ?case
  proof (cases "c = CHR '' ''")
    case True
    with 2 have ss: "single_spaced True cs"
      and ih: "replace_runs (\<lambda>c. \<not> is_term_char c) '' '' (map hyphen_for_space cs) = cs"
      by auto
    from single_spaced_start [OF ss]
    have "dropWhile (\<lambda>c. \<not> is_term_char c) (map hyphen_for_space cs) = map hyphen_for_space cs"
      by (cases cs) (auto simp: hyphen_for_space_def space_facts)
    moreover from True have "hyphen_for_space c = CHR ''-''"
      by (simp add: hyphen_for_space_def)
    ultimately show ?thesis
      using True ih by (simp add: space_facts)
  next
    case False
    with 2 have "is_term_char c"
      and "replace_runs (\<lambda>c. \<not> is_term_char c) '' '' (map hyphen_for_space cs) = cs"
      by auto
    moreover from False have "hyphen_for_space c = c"
      by (simp add: hyphen_for_space_def)
    ultimately show ?thesis
      by simp
  qed
qed

lemma trim_fixed:
  assumes "y = [] \<or> (\<not> is_space (hd y) \<and> \<not> is_space (last y))"
  shows "trim y = y"
proof (cases y)
  case Nil
  then show ?thesis by (simp add: trim_def)
next
  case (Cons c cs)
  with assms have "dropWhile is_space y = y"
    by simp
  moreover have "y \<noteq> []"
    using Cons by simp
  then have "hd (rev y) = last y"
    by (simp add: hd_rev)
  with assms \<open>y \<noteq> []\<close> have "dropWhile is_space (rev y) = rev y"
    using dropWhile_eq_self_iff [of is_space "rev y"] by simp
  ultimately show ?thesis
    by (simp add: trim_def)
qed

lemma normalizeTerm_shape:
  "single_spaced True (normalizeTerm v) \<and>
   (normalizeTerm v = [] \<or> \<not> is_space (last (normalizeTerm v)))"
proof -
  define r where "r = replace_runs (\<lambda>c. \<not> is_term_char c) '' '' (toLowerCase v)"
  have "single_spaced False r"
    unfolding r_def using replace_nonterm_spaced by blast
  then have t: "single_spaced True (trim r) \<and> (trim r = [] \<or> \<not> is_space (last (trim r)))"
    by (rule trim_spaced)
  then have "replace_runs is_space '' '' (trim r) = trim r"
    using spaces_single_spaced by blast
  then have "normalizeTerm v = trim r"
    by (simp add: normalizeTerm_def r_def)
  with t show ?thesis
    by simp
qed

lemma normalizeTerm_hyphenated:
  assumes "single_spaced True y" and "y = [] \<or> \<not> is_space (last y)"
  shows "normalizeTerm (map hyphen_for_space y) = y"
proof -
  have "y = [] \<or> (\<not> is_space (hd y) \<and> \<not> is_space (last y))"
    using assms single_spaced_start [OF assms(1)] term_char_not_space by blast
  then have "trim y = y"
    by (rule trim_fixed)
  with assms(1) show ?thesis
    by (simp add: normalizeTerm_def lower_hyphenated nonterm_hyphenated spaces_single_spaced)
qed

lemma normalizeUseCase_idempotent:
  "normalizeUseCase (normalizeUseCase u) = normalizeUseCase u"
proof -
  define y where "y = normalizeTerm u"
  have s: "single_spaced True y" "y = [] \<or> \<not> is_space (last y)"
    unfolding y_def using normalizeTerm_shape by blast+
  have h: "normalizeUseCase u = map hyphen_for_space y"
    using s(1) by (simp add: normalizeUseCase_def y_def hyphens_single_spaced)
  have "normalizeUseCase (map hyphen_for_space y) = map hyphen_for_space y"
    using s by (simp add: normalizeUseCase_def normalizeTerm_hyphenated hyphens_single_spaced)
  with h show ?thesis
    by simp
qed

lemma resolveUseCase_normalized: "resolveUseCase (normalizeUseCase u) = resolveUseCase u"
  by (simp add: resolveUseCase_def normalizeUseCase_idempotent)

lemma resolveUseCase_keys: "list_all (\<lambda>(k, w). resolveUseCase k = k) USE_CASE_PRIORITIES"
  by code_simp

lemma resolveUseCase_idempotent: "resolveUseCase (resolveUseCase u) = resolveUseCase u"
proof (cases "resolveUseCase u \<in> fst ` set USE_CASE_PRIORITIES")
  case True
  then show ?thesis
    using resolveUseCase_keys by (auto simp: list_all_iff)
next
  case False
  then have "resolveUseCase u = normalizeUseCase u"
    using resolveUseCase_cases by blast
  then show ?thesis
    by (simp add: resolveUseCase_normalized)
qed

text \<open>
  C8 (as the code has it). When the use case resolves to a canonical key, the weights are
  the ones configured for that key. When it does not, the result of the resolution is the
  normalised input (lower case, words joined by hyphens), not the input as typed, and the
  weights are the default (70, 70, 60); the normalised input \<open>constructor\<close> is left out.
  The handlers resolve the use case themselves and hand the result to
  \<open>getUseCaseWeights\<close>, which resolves it again: the second resolution changes nothing.
\<close>

theorem getUseCaseWeights_resolution:
  "(resolveUseCase u \<in> fst ` set USE_CASE_PRIORITIES \<longrightarrow>
      (\<exists>w. (resolveUseCase u, w) \<in> set USE_CASE_PRIORITIES \<and> getUseCaseWeights u = Weights w)) \<and>
   (resolveUseCase u \<notin> fst ` set USE_CASE_PRIORITIES \<longrightarrow>
      resolveUseCase u = normalizeUseCase u \<and>
      (normalizeUseCase u \<noteq> ''constructor'' \<longrightarrow>
         getUseCaseWeights u = Weights \<lparr>w_latency = 70, w_quality = 70, w_cost = 60\<rparr>)) \<and>
   getUseCaseWeights (resolveUseCase u) = getUseCaseWeights u"
proof (intro conjI impI)
  assume "resolveUseCase u \<in> fst ` set USE_CASE_PRIORITIES"
  then obtain w where "js_get USE_CASE_PRIORITIES (resolveUseCase u) = Own w"
    "(resolveUseCase u, w) \<in> set USE_CASE_PRIORITIES"
    using js_get_own by blast
  then show "\<exists>w. (resolveUseCase u, w) \<in> set USE_CASE_PRIORITIES \<and> getUseCaseWeights u = Weights w"
    by (auto simp: getUseCaseWeights_def)
next
  assume n: "resolveUseCase u \<notin> fst ` set USE_CASE_PRIORITIES"
  then show eq: "resolveUseCase u = normalizeUseCase u"
    using resolveUseCase_cases by blast
  assume c: "normalizeUseCase u \<noteq> ''constructor''"
  then have "normalizeUseCase u \<notin> set OBJECT_PROTOTYPE_KEYS"
    using normalizeUseCase_prototype by blast
  with n eq have "js_get USE_CASE_PRIORITIES (resolveUseCase u) = Undefined"
    by (simp add: js_get_undefined)
  then show "getUseCaseWeights u = Weights \<lparr>w_latency = 70, w_quality = 70, w_cost = 60\<rparr>"
    by (simp add: getUseCaseWeights_def DEFAULT_WEIGHTS_def)
next
  show "getUseCaseWeights (resolveUseCase u) = getUseCaseWeights u"
    by (simp add: getUseCaseWeights_def resolveUseCase_idempotent)
qed

theorem getUseCaseWeights_resolution_witness:
  "resolveUseCase ''Customer Support'' \<in> fst ` set USE_CASE_PRIORITIES \<and>
   (\<exists>w. (resolveUseCase ''Customer Support'', w) \<in> set USE_CASE_PRIORITIES \<and>
        getUseCaseWeights ''Customer Support'' = Weights w) \<and>
   resolveUseCase ''Gaming Bot'' \<notin> fst ` set USE_CASE_PRIORITIES \<and>
   normalizeUseCase ''Gaming Bot'' \<noteq> ''constructor'' \<and>
   resolveUseCase ''Gaming Bot'' = normalizeUseCase ''Gaming Bot'' \<and>
   getUseCaseWeights ''Gaming Bot'' = Weights \<lparr>w_latency = 70, w_quality = 70, w_cost = 60\<rparr> \<and>
   getUseCaseWeights (resolveUseCase ''Gaming Bot'') = getUseCaseWeights ''Gaming Bot''"
proof -
  have known: "resolveUseCase ''Customer Support'' \<in> fst ` set USE_CASE_PRIORITIES"
    by code_simp
  have unknown: "resolveUseCase ''Gaming Bot'' \<notin> fst ` set USE_CASE_PRIORITIES"
    by code_simp
  have other: "normalizeUseCase ''Gaming Bot'' \<noteq> ''constructor''"
    by code_simp
  from getUseCaseWeights_resolution [of "''Customer Support''"]
    getUseCaseWeights_resolution [of "''Gaming Bot''"] known unknown other
  show ?thesis
    by blast
qed

text \<open>
  C8 as stated fails: an unresolved use case is not passed through as typed. \<open>Gaming Bot\<close>
  resolves to no canonical key and comes back as \<open>gaming-bot\<close>.
\<close>

theorem resolveUseCase_verbatim_counterexample:
  "resolveUseCase ''Gaming Bot'' \<notin> fst ` set USE_CASE_PRIORITIES \<and>
   resolveUseCase ''Gaming Bot'' = ''gaming-bot'' \<and>
   resolveUseCase ''Gaming Bot'' \<noteq> ''Gaming Bot''"
  by code_simp

text \<open>
  The use case \<open>constructor\<close> finds the inherited \<open>Object.prototype.constructor\<close>: it is
  returned as if it were a key, and the weights are that function, not a weight triple.
\<close>

lemma getUseCaseWeights_constructor:
  "resolveUseCase ''constructor'' = ''constructor'' \<and>
   getUseCaseWeights ''constructor'' = PrototypeMember"
  by code_simp

section \<open>Ranking\<close>

lemma with_score_simps:
  "score (with_score e s) = s" "latencyMs (with_score e s) = latencyMs e"
  "quality (with_score e s) = quality e" "costPerMin (with_score e s) = costPerMin e"
  "stt (with_score e s) = stt e" "llm (with_score e s) = llm e" "tts (with_score e s) = tts e"
  "sttModel (with_score e s) = sttModel e" "llmModel (with_score e s) = llmModel e"
  "ttsModel (with_score e s) = ttsModel e"
  "BenchmarkEntry.truncate (with_score e s) = e"
  by (simp_all add: with_score_def BenchmarkEntry.defs ScoredEntry.defs)


















section \<open>Parsing combos\<close>

lemma parseProviderWithModel_None:
  "(parseProviderWithModel seg = None) = (resolveProvider seg = None)"
  by (auto simp: parseProviderWithModel_def resolveProvider_def resolveProviderMatch_def Let_def
      split: option.splits)

lemma parseProviderWithModel_provider:
  "parseProviderWithModel seg = Some pm \<Longrightarrow> resolveProvider seg = Some (parsedProvider pm)"
  by (auto simp: parseProviderWithModel_def resolveProvider_def Let_def
      split: option.splits if_splits)

lemma match_separator_rest:
  assumes "match_separator s = Some rest"
  shows "set rest \<subseteq> set s"
proof -
  have d: "\<And>ys. set (dropWhile is_space ys) \<subseteq> set ys"
    by (auto dest: set_dropWhileD)
  show ?thesis
  proof (cases "dropWhile is_space s")
    case Nil
    with assms show ?thesis by (simp add: match_separator_def)
  next
    case (Cons x xs)
    then have "set xs \<subseteq> set s"
      using d [of s] by auto
    moreover have "\<And>y ys. xs = y # ys \<Longrightarrow> set (dropWhile is_space ys) \<subseteq> set xs"
      using d by fastforce
    ultimately show ?thesis
      using assms Cons d [of xs]
      by (auto simp: match_separator_def split: if_splits list.splits)
  qed
qed

lemma not_space_separators: "\<not> is_space CHR ''+''" "\<not> is_space CHR '',''"
  by (simp_all add: is_space_def)

lemma match_separator_plus_comma:
  "match_separator (c # cs) = None \<Longrightarrow> c \<noteq> CHR ''+'' \<and> c \<noteq> CHR '',''"
  by (auto simp: match_separator_def not_space_separators)

lemma split_separators_chars:
  "s \<in> set (split_separators acc xs) \<Longrightarrow>
   set s \<subseteq> set acc \<union> {c \<in> set xs. c \<noteq> CHR ''+'' \<and> c \<noteq> CHR '',''}"
proof (induction acc xs arbitrary: s rule: split_separators.induct)
  case (1 acc)
  then show ?case by simp
next
  case (2 acc c cs)
  show ?case
  proof (cases "match_separator (c # cs)")
    case None
    with 2 have "set s \<subseteq> set (c # acc) \<union> {c \<in> set cs. c \<noteq> CHR ''+'' \<and> c \<noteq> CHR '',''}"
      by simp
    with match_separator_plus_comma [OF None] show ?thesis
      by auto
  next
    case (Some rest)
    with 2 have "s = rev acc \<or> s \<in> set (split_separators [] rest)"
      by simp
    then show ?thesis
    proof
      assume "s = rev acc"
      then show ?thesis by simp
    next
      assume "s \<in> set (split_separators [] rest)"
      with 2 Some have "set s \<subseteq> {c \<in> set rest. c \<noteq> CHR ''+'' \<and> c \<noteq> CHR '',''}"
        by fastforce
      with match_separator_rest [OF Some] show ?thesis
        by auto
    qed
  qed
qed

lemma combo_parts_shape:
  assumes "p \<in> set (combo_parts desc)"
  shows "p \<noteq> [] \<and> \<not> is_space (hd p) \<and> \<not> is_space (last p) \<and>
         CHR ''+'' \<notin> set p \<and> CHR '','' \<notin> set p"
proof -
  from assms obtain s where s: "s \<in> set (split_separators [] desc)" and p: "p = trim s" "p \<noteq> []"
    by (auto simp: combo_parts_def)
  from split_separators_chars [OF s] set_trim [of s] p
  have "CHR ''+'' \<notin> set p \<and> CHR '','' \<notin> set p"
    by auto
  with trim_ends [of s] p show ?thesis
    by simp
qed

lemma parseComboInput_Some:
  "(parseComboInput desc = Some combo) =
   (\<exists>a b c. combo_parts desc = [a, b, c] \<and>
      parseProviderWithModel a = Some (combo_stt combo) \<and>
      parseProviderWithModel b = Some (combo_llm combo) \<and>
      parseProviderWithModel c = Some (combo_tts combo))"
  by (cases combo) (auto simp: parseComboInput_def split: list.splits option.splits)

text \<open>
  C4. \<open>parseComboInput\<close> is a total function: it returns a combo or nothing, and has no
  failing step. It returns a combo exactly when the input has three parts and the provider
  of each part resolves; the three parts are then STT, LLM and TTS in this order, each with
  the provider it resolves to. The parts are what is left between the separators: none is
  empty, none starts or ends with white space, none contains \<open>+\<close> or a comma.
\<close>

theorem parseComboInput_three_parts:
  "((parseComboInput desc \<noteq> None) =
      (\<exists>a b c. combo_parts desc = [a, b, c] \<and> resolveProvider a \<noteq> None \<and>
         resolveProvider b \<noteq> None \<and> resolveProvider c \<noteq> None)) \<and>
   (parseComboInput desc = Some combo \<longrightarrow>
      (\<exists>a b c. combo_parts desc = [a, b, c] \<and>
         parseProviderWithModel a = Some (combo_stt combo) \<and>
         parseProviderWithModel b = Some (combo_llm combo) \<and>
         parseProviderWithModel c = Some (combo_tts combo) \<and>
         resolveProvider a = Some (parsedProvider (combo_stt combo)) \<and>
         resolveProvider b = Some (parsedProvider (combo_llm combo)) \<and>
         resolveProvider c = Some (parsedProvider (combo_tts combo)))) \<and>
   (length (combo_parts desc) \<noteq> 3 \<longrightarrow> parseComboInput desc = None) \<and>
   (part \<in> set (combo_parts desc) \<longrightarrow>
      (resolveProvider part = None \<longrightarrow> parseComboInput desc = None) \<and>
      part \<noteq> [] \<and> \<not> is_space (hd part) \<and> \<not> is_space (last part) \<and>
      CHR ''+'' \<notin> set part \<and> CHR '','' \<notin> set part)"
proof (intro conjI impI)
  show "(parseComboInput desc \<noteq> None) =
      (\<exists>a b c. combo_parts desc = [a, b, c] \<and> resolveProvider a \<noteq> None \<and>
         resolveProvider b \<noteq> None \<and> resolveProvider c \<noteq> None)"
    by (auto simp: parseComboInput_def parseProviderWithModel_None [symmetric]
        split: list.splits option.splits)
next
  assume "parseComboInput desc = Some combo"
  then obtain a b c where parts: "combo_parts desc = [a, b, c]"
    and "parseProviderWithModel a = Some (combo_stt combo)"
    and "parseProviderWithModel b = Some (combo_llm combo)"
    and "parseProviderWithModel c = Some (combo_tts combo)"
    by (auto simp: parseComboInput_Some)
  then show "\<exists>a b c. combo_parts desc = [a, b, c] \<and>
         parseProviderWithModel a = Some (combo_stt combo) \<and>
         parseProviderWithModel b = Some (combo_llm combo) \<and>
         parseProviderWithModel c = Some (combo_tts combo) \<and>
         resolveProvider a = Some (parsedProvider (combo_stt combo)) \<and>
         resolveProvider b = Some (parsedProvider (combo_llm combo)) \<and>
         resolveProvider c = Some (parsedProvider (combo_tts combo))"
    using parseProviderWithModel_provider by blast
next
  assume "length (combo_parts desc) \<noteq> 3"
  then show "parseComboInput desc = None"
    by (auto simp: parseComboInput_def split: list.splits)
next
  assume part: "part \<in> set (combo_parts desc)"
  from combo_parts_shape [OF part]
  show "part \<noteq> []" "\<not> is_space (hd part)" "\<not> is_space (last part)"
    "CHR ''+'' \<notin> set part" "CHR '','' \<notin> set part"
    by simp_all
  assume "resolveProvider part = None"
  then have "parseProviderWithModel part = None"
    by (simp add: parseProviderWithModel_None)
  with part show "parseComboInput desc = None"
    by (auto simp: parseComboInput_def split: list.splits option.splits)
qed

theorem parseComboInput_three_parts_witness:
  "parseComboInput ''Deepgram nova-3 + Open AI GPT-4.1-mini -> Cartesia'' =
     Some \<lparr>combo_stt = \<lparr>parsedProvider = ''Deepgram'', model = Some ''nova-3''\<rparr>,
           combo_llm = \<lparr>parsedProvider = ''OpenAI'', model = Some ''GPT-4.1-mini''\<rparr>,
           combo_tts = \<lparr>parsedProvider = ''Cartesia'', model = None\<rparr>\<rparr> \<and>
   (\<exists>a b c. combo_parts ''Deepgram nova-3 + Open AI GPT-4.1-mini -> Cartesia'' = [a, b, c] \<and>
      resolveProvider a = Some ''Deepgram'' \<and> resolveProvider b = Some ''OpenAI'' \<and>
      resolveProvider c = Some ''Cartesia'') \<and>
   length (combo_parts ''Deepgram, OpenAI'') \<noteq> 3 \<and>
   parseComboInput ''Deepgram, OpenAI'' = None \<and>
   ''NopeAI'' \<in> set (combo_parts ''Deepgram + NopeAI + Cartesia'') \<and>
   resolveProvider ''NopeAI'' = None \<and>
   parseComboInput ''Deepgram + NopeAI + Cartesia'' = None"
proof -
  have parsed: "parseComboInput ''Deepgram nova-3 + Open AI GPT-4.1-mini -> Cartesia'' =
     Some \<lparr>combo_stt = \<lparr>parsedProvider = ''Deepgram'', model = Some ''nova-3''\<rparr>,
           combo_llm = \<lparr>parsedProvider = ''OpenAI'', model = Some ''GPT-4.1-mini''\<rparr>,
           combo_tts = \<lparr>parsedProvider = ''Cartesia'', model = None\<rparr>\<rparr>"
    by code_simp
  have two: "length (combo_parts ''Deepgram, OpenAI'') \<noteq> 3"
    by code_simp
  have part: "''NopeAI'' \<in> set (combo_parts ''Deepgram + NopeAI + Cartesia'')"
    by code_simp
  have unknown: "resolveProvider ''NopeAI'' = None"
    by code_simp
  from parseComboInput_three_parts [of "''Deepgram nova-3 + Open AI GPT-4.1-mini -> Cartesia''"
      "\<lparr>combo_stt = \<lparr>parsedProvider = ''Deepgram'', model = Some ''nova-3''\<rparr>,
        combo_llm = \<lparr>parsedProvider = ''OpenAI'', model = Some ''GPT-4.1-mini''\<rparr>,
        combo_tts = \<lparr>parsedProvider = ''Cartesia'', model = None\<rparr>\<rparr>"] parsed
  have first: "\<exists>a b c. combo_parts ''Deepgram nova-3 + Open AI GPT-4.1-mini -> Cartesia'' = [a, b, c] \<and>
      resolveProvider a = Some ''Deepgram'' \<and> resolveProvider b = Some ''OpenAI'' \<and>
      resolveProvider c = Some ''Cartesia''"
    by simp blast
  from parseComboInput_three_parts [of "''Deepgram, OpenAI''"] two
  have second: "parseComboInput ''Deepgram, OpenAI'' = None"
    by blast
  from parseComboInput_three_parts [of "''Deepgram + NopeAI + Cartesia''" _ "''NopeAI''"] part unknown
  have third: "parseComboInput ''Deepgram + NopeAI + Cartesia'' = None"
    by blast
  from parsed first two second part unknown third show ?thesis
    by blast
qed

section \<open>Sorting keeps the elements\<close>

lemma mset_insert_sorted: "mset (insert_sorted cmp x xs) = add_mset x (mset xs)"
  by (induction xs) simp_all

lemma mset_js_sort: "mset (js_sort cmp xs) = mset xs"
  by (induction xs) (simp_all add: js_sort_def mset_insert_sorted)

lemma set_js_sort: "set (js_sort cmp xs) = set xs"
  using mset_js_sort [of cmp xs] by (metis set_mset_mset)

lemma length_js_sort: "length (js_sort cmp xs) = length xs"
  using mset_js_sort [of cmp xs] by (metis size_mset)

lemma rankBenchmarks_length: "length (rankBenchmarks es wv) = length es"
  by (simp add: rankBenchmarks_def length_js_sort)

lemma rankBenchmarks_rows:
  "set (rankBenchmarks es wv) = scored wv ` set es"
  by (simp add: rankBenchmarks_def set_js_sort scored_def [abs_def])

section \<open>Recommend: the top pick\<close>

lemma clampMaxResults_range: "1 \<le> clampMaxResults v \<and> clampMaxResults v \<le> 10"
  by (cases v) (simp_all add: clampMaxResults_def MAX_RESULTS_def)

lemma recommend_top:
  assumes "es \<noteq> []"
  shows "take (nat (clampMaxResults v)) (rankBenchmarks es wv) \<noteq> []"
proof -
  have "0 < nat (clampMaxResults v)"
    using clampMaxResults_range [of v] by simp
  moreover have "rankBenchmarks es wv \<noteq> []"
    using assms rankBenchmarks_length [of es wv] by (metis length_0_conv)
  ultimately show ?thesis
    by (cases "rankBenchmarks es wv") (auto simp: take_Cons split: nat.splits)
qed

text \<open>
  C9. The clamped result count lies between 1 and 10. When a row of the catalog supports
  the resolved language, the recommend handler returns the ranked rows cut to that count,
  and they are not empty. No call of the handler ends in the error of reading a field of a
  missing top pick.
\<close>

theorem recommend_top_pick:
  "1 \<le> clampMaxResults v \<and> clampMaxResults v \<le> 10 \<and>
   (resolveLanguage language = Some rl \<and> b \<in> set BENCHMARK_DATA \<and> supports_language b rl \<longrightarrow>
      (\<exists>rows. voiceforge_recommend language use_case opt v output_format =
                 Inr (RecommendRanked rl (resolveUseCase use_case) opt rows) \<and>
              rows \<noteq> [] \<and>
              rows = take (nat (clampMaxResults v))
                (rankBenchmarks (filter (\<lambda>b. supports_language b rl) BENCHMARK_DATA)
                   (getObjectiveWeights opt (resolveUseCase use_case))))) \<and>
   voiceforge_recommend language use_case opt v output_format \<noteq> Inl TypeError"
proof (intro conjI impI)
  show "1 \<le> clampMaxResults v" "clampMaxResults v \<le> 10"
    using clampMaxResults_range by simp_all
next
  assume a: "resolveLanguage language = Some rl \<and> b \<in> set BENCHMARK_DATA \<and> supports_language b rl"
  let ?m = "filter (\<lambda>b. supports_language b rl) BENCHMARK_DATA"
  let ?rows = "take (nat (clampMaxResults v))
                (rankBenchmarks ?m (getObjectiveWeights opt (resolveUseCase use_case)))"
  from a have m: "?m \<noteq> []"
    by (auto simp: filter_empty_conv)
  then have rows: "?rows \<noteq> []"
    by (rule recommend_top)
  with a m have "voiceforge_recommend language use_case opt v output_format =
                 Inr (RecommendRanked rl (resolveUseCase use_case) opt ?rows)"
    by (auto simp: voiceforge_recommend_def Let_def split: list.splits)
  with rows show "\<exists>rows. voiceforge_recommend language use_case opt v output_format =
                 Inr (RecommendRanked rl (resolveUseCase use_case) opt rows) \<and>
              rows \<noteq> [] \<and>
              rows = take (nat (clampMaxResults v))
                (rankBenchmarks ?m (getObjectiveWeights opt (resolveUseCase use_case)))"
    by blast
next
  show "voiceforge_recommend language use_case opt v output_format \<noteq> Inl TypeError"
    using recommend_top
    by (auto simp: voiceforge_recommend_def Let_def split: option.splits list.splits)
qed

theorem recommend_top_pick_witness:
  "resolveLanguage ''th'' = Some ''Thai'' \<and> hd BENCHMARK_DATA \<in> set BENCHMARK_DATA \<and>
   supports_language (hd BENCHMARK_DATA) ''Thai'' \<and>
   (\<exists>rows. voiceforge_recommend ''th'' ''sales'' Balanced (Finite 3) Markdown =
              Inr (RecommendRanked ''Thai'' (resolveUseCase ''sales'') Balanced rows) \<and>
            rows \<noteq> [])"
proof -
  have lang: "resolveLanguage ''th'' = Some ''Thai''"
    by code_simp
  have row: "hd BENCHMARK_DATA \<in> set BENCHMARK_DATA"
    by (simp add: BENCHMARK_DATA_def)
  have thai: "supports_language (hd BENCHMARK_DATA) ''Thai''"
    by code_simp
  from recommend_top_pick [where v = "Finite 3" and language = "''th''" and rl = "''Thai''"
      and b = "hd BENCHMARK_DATA" and use_case = "''sales''" and opt = Balanced
      and output_format = Markdown] lang row thai
  show ?thesis
    by blast
qed

section \<open>Scaffold: the selected stack and the fallback notice\<close>

lemma find_first_filter:
  "List.find P xs = Some x \<Longrightarrow> \<exists>rest. filter P xs = x # rest"
  by (induction xs) (auto split: if_splits)

lemma catalog_labels_distinct: "distinct (map stack_label BENCHMARK_DATA)"
  by code_simp

lemma stack_label_scored: "stack_label (scored wv e) = stack_label e"
  by (simp add: stack_label_def scored_def with_score_simps)

lemma scored_inject: "scored wv e = scored wv f \<Longrightarrow> e = f"
  by (metis scored_def with_score_simps(11))

lemma same_stack_same_row:
  assumes "x \<in> set (rankBenchmarks es wv)" "y \<in> set (rankBenchmarks es wv)"
    and "set es \<subseteq> set BENCHMARK_DATA"
  shows "(stack_label x = stack_label y) = (x = y)"
proof -
  from assms obtain e f where e: "e \<in> set BENCHMARK_DATA" "x = scored wv e"
    and f: "f \<in> set BENCHMARK_DATA" "y = scored wv f"
    by (auto simp: rankBenchmarks_rows)
  have "inj_on stack_label (set BENCHMARK_DATA)"
    using catalog_labels_distinct by (simp add: distinct_map)
  with e f have "(stack_label e = stack_label f) = (e = f)"
    by (auto dest: inj_onD)
  moreover have "(x = y) = (e = f)"
    using e f scored_inject by auto
  ultimately show ?thesis
    using e f by (simp add: stack_label_scored)
qed

text \<open>
  C6. Let the language resolve and \<open>best\<close> be the first framework-compatible row of the
  ranking, and let the template return its files. Then the scaffold handler answers with
  the stack \<open>best\<close>, and it carries a fallback notice exactly when \<open>best\<close> is not the
  top-ranked row and the two scores differ by more than 2.
\<close>

theorem scaffold_fallback_notice:
  assumes "resolveLanguage language = Some rl"
    and "ranked = scaffold_ranking rl use_case"
    and "List.find (\<lambda>entry. isScaffoldCompatible entry framework) ranked = Some best"
    and "\<And>config. \<exists>files. templates framework config = Files files"
  shows "\<exists>r. voiceforge_scaffold templates now language use_case framework agent_name
               output_dir output_format = Inr (ScaffoldOk r) \<and>
             sc_stack r = best \<and>
             (sc_fallback_notice r \<noteq> None) =
               (best \<noteq> hd ranked \<and> exceeds (scoreDelta (hd ranked) best) 2)"
proof -
  let ?m = "filter (\<lambda>b. supports_language b rl) BENCHMARK_DATA"
  let ?w = "getUseCaseWeights (resolveUseCase use_case)"
  from assms(3) have best: "best \<in> set ranked"
    by (auto dest: find_in_set)
  then obtain topPick lower where ranked: "ranked = topPick # lower"
    by (cases ranked) auto
  then have r: "rankBenchmarks ?m ?w = topPick # lower"
    using assms(2) by (simp add: scaffold_ranking_def)
  from find_first_filter [OF assms(3)] obtain others where
    "filter (\<lambda>entry. isScaffoldCompatible entry framework) ranked = best # others"
    by blast
  then have sc: "filter (\<lambda>entry. isScaffoldCompatible entry framework) (topPick # lower) = best # others"
    using ranked by simp
  have m: "?m \<noteq> []"
    using r rankBenchmarks_length [of ?m ?w] by auto
  have "topPick \<in> set ranked"
    using ranked by simp
  then have same: "(stack_label topPick = stack_label best) = (topPick = best)"
    using best unfolding assms(2) scaffold_ranking_def by (intro same_stack_same_row) auto
  from assms(4) obtain F where F: "\<And>c. templates framework c = Files (F c)"
    by metis
  show ?thesis
    by (auto simp: voiceforge_scaffold_def assms(1) m r sc same Let_def F ranked
        simp del: filter.simps)
qed

theorem scaffold_fallback_notice_witness:
  "resolveLanguage ''Japanese'' = Some ''Japanese'' \<and>
   List.find (\<lambda>entry. isScaffoldCompatible entry Nextjs) (scaffold_ranking ''Japanese'' ''sales'')
     = Some (scaffold_ranking ''Japanese'' ''sales'' ! 3) \<and>
   (\<exists>r. voiceforge_scaffold no_files ''0'' ''Japanese'' ''sales'' Nextjs None None Json
           = Inr (ScaffoldOk r) \<and>
        sc_stack r = scaffold_ranking ''Japanese'' ''sales'' ! 3 \<and>
        sc_fallback_notice r \<noteq> None) \<and>
   resolveLanguage ''Thai'' = Some ''Thai'' \<and>
   List.find (\<lambda>entry. isScaffoldCompatible entry Livekit) (scaffold_ranking ''Thai'' ''sales'')
     = Some (scaffold_ranking ''Thai'' ''sales'' ! 1) \<and>
   scaffold_ranking ''Thai'' ''sales'' ! 1 \<noteq> hd (scaffold_ranking ''Thai'' ''sales'') \<and>
   (\<exists>r. voiceforge_scaffold no_files ''0'' ''Thai'' ''sales'' Livekit None None Json
           = Inr (ScaffoldOk r) \<and>
        sc_stack r = scaffold_ranking ''Thai'' ''sales'' ! 1 \<and>
        sc_fallback_notice r = None)"
proof -
  have files: "\<And>framework config. \<exists>files. no_files framework config = Files files"
    by (simp add: no_files_def)
  have ja: "resolveLanguage ''Japanese'' = Some ''Japanese''"
    by code_simp
  have ja_best: "List.find (\<lambda>entry. isScaffoldCompatible entry Nextjs)
      (scaffold_ranking ''Japanese'' ''sales'') = Some (scaffold_ranking ''Japanese'' ''sales'' ! 3)"
    by code_simp
  have ja_gap: "scaffold_ranking ''Japanese'' ''sales'' ! 3 \<noteq> hd (scaffold_ranking ''Japanese'' ''sales'') \<and>
      exceeds (scoreDelta (hd (scaffold_ranking ''Japanese'' ''sales''))
        (scaffold_ranking ''Japanese'' ''sales'' ! 3)) 2"
    by code_simp
  have th: "resolveLanguage ''Thai'' = Some ''Thai''"
    by code_simp
  have th_best: "List.find (\<lambda>entry. isScaffoldCompatible entry Livekit)
      (scaffold_ranking ''Thai'' ''sales'') = Some (scaffold_ranking ''Thai'' ''sales'' ! 1)"
    by code_simp
  have th_other: "scaffold_ranking ''Thai'' ''sales'' ! 1 \<noteq> hd (scaffold_ranking ''Thai'' ''sales'')"
    by code_simp
  have th_gap: "\<not> exceeds (scoreDelta (hd (scaffold_ranking ''Thai'' ''sales''))
        (scaffold_ranking ''Thai'' ''sales'' ! 1)) 2"
    by code_simp
  from scaffold_fallback_notice [OF ja refl ja_best files, where now = "''0''"
      and agent_name = None and output_dir = None and output_format = Json] ja_gap
  have first: "\<exists>r. voiceforge_scaffold no_files ''0'' ''Japanese'' ''sales'' Nextjs None None Json
           = Inr (ScaffoldOk r) \<and>
        sc_stack r = scaffold_ranking ''Japanese'' ''sales'' ! 3 \<and>
        sc_fallback_notice r \<noteq> None"
    by auto
  from scaffold_fallback_notice [OF th refl th_best files, where now = "''0''"
      and agent_name = None and output_dir = None and output_format = Json] th_gap
  have second: "\<exists>r. voiceforge_scaffold no_files ''0'' ''Thai'' ''sales'' Livekit None None Json
           = Inr (ScaffoldOk r) \<and>
        sc_stack r = scaffold_ranking ''Thai'' ''sales'' ! 1 \<and>
        sc_fallback_notice r = None"
    by auto
  from ja ja_best first th th_best th_other second show ?thesis
    by blast
qed

section \<open>Output format\<close>







lemma validate_best_effort_status:
  "\<exists>q. validate_best_effort c u = Inr q \<and>
        (validate_reason q = Some ''no-exact-match'' \<or> validate_status q = ''ok'')"
proof -
  have "\<And>es wv. es \<noteq> [] \<Longrightarrow> rankBenchmarks es wv \<noteq> []"
    using rankBenchmarks_length by (metis length_0_conv)
  then show ?thesis
    by (auto simp: validate_best_effort_def Let_def split: list.splits)
qed










section \<open>Benchmark: an unresolved language\<close>

lemma benchmark_unresolved_language:
  assumes "given language = Some l" "resolveLanguage l = None"
  shows "voiceforge_benchmark language p sortBy output_format =
         Inr (BenchmarkUnsupportedLanguage l (getLanguageSuggestions l))"
  using assms by (simp add: voiceforge_benchmark_def)


text \<open>
  C7 at its own example. The language \<open>Nigerian\<close> does not resolve, and the handler
  answers with the status \<open>error\<close> and the reason \<open>unsupported-language\<close>; the list of
  suggestions is empty, since no supported language and no alias contains \<open>nigerian\<close> or
  is contained in it.
\<close>

theorem benchmark_nigerian_no_suggestions:
  "voiceforge_benchmark (Some ''Nigerian'') None ByQuality Json =
     Inr (BenchmarkUnsupportedLanguage ''Nigerian'' []) \<and>
   benchmark_status (BenchmarkUnsupportedLanguage ''Nigerian'' []) = ''error'' \<and>
   benchmark_reason (BenchmarkUnsupportedLanguage ''Nigerian'' []) = Some ''unsupported-language'' \<and>
   getLanguageSuggestions ''Nigerian'' = []"
  by code_simp

end
